theory Spec2Isabelle
  imports Main
begin

section \<open>Text\<close>

text \<open>
  The program is \<^verbatim>\<open>src/functions/index.js\<close>, a set of Firebase cloud functions
  that remind patients of their medication over WhatsApp and record their replies. The
  file holds two revisions of the program, one after the other; line numbers are those of
  the first, and the scheduled check and the reply webhook are the same in both.

  What is outside the program is an input of the model: the document store's contents,
  the server's clock at each write, what the date formatter renders, the gateway's
  configuration, what its client constructor does and its answer to each send. An
  exception a library call throws is a value, and a function the exception passes through
  returns it together with the state reached. Documents carry the fields the code reads,
  the store's own operations succeed, and the module has been loaded (lines 1 to 21 have
  run).

  JavaScript strings are modelled as HOL strings holding the text in UTF-8. The texts the
  program compares (reply codes, the stop keyword, phone numbers, \<^verbatim>\<open>HH:MM\<close> times) are
  ASCII; the non-ASCII characters of the fixed message literals and of white space are
  written as their UTF-8 bytes. Letter case is the ASCII one.
\<close>

text \<open>
  The white space and line terminators of \<^verbatim>\<open>String.prototype.trim\<close>, in UTF-8: U+0009
  to U+000D, U+0020, U+00A0, U+1680, U+2000 to U+200A, U+2028, U+2029, U+202F, U+205F,
  U+3000 and U+FEFF.
\<close>

definition whiteSpace :: "string list" where
  "whiteSpace =
     [[CHR 0x09], [CHR 0x0A], [CHR 0x0B], [CHR 0x0C], [CHR 0x0D], [CHR 0x20],
      [CHR 0xC2, CHR 0xA0], [CHR 0xE1, CHR 0x9A, CHR 0x80],
      [CHR 0xE2, CHR 0x80, CHR 0x80], [CHR 0xE2, CHR 0x80, CHR 0x81],
      [CHR 0xE2, CHR 0x80, CHR 0x82], [CHR 0xE2, CHR 0x80, CHR 0x83],
      [CHR 0xE2, CHR 0x80, CHR 0x84], [CHR 0xE2, CHR 0x80, CHR 0x85],
      [CHR 0xE2, CHR 0x80, CHR 0x86], [CHR 0xE2, CHR 0x80, CHR 0x87],
      [CHR 0xE2, CHR 0x80, CHR 0x88], [CHR 0xE2, CHR 0x80, CHR 0x89],
      [CHR 0xE2, CHR 0x80, CHR 0x8A], [CHR 0xE2, CHR 0x80, CHR 0xA8],
      [CHR 0xE2, CHR 0x80, CHR 0xA9], [CHR 0xE2, CHR 0x80, CHR 0xAF],
      [CHR 0xE2, CHR 0x81, CHR 0x9F], [CHR 0xE3, CHR 0x80, CHR 0x80],
      [CHR 0xEF, CHR 0xBB, CHR 0xBF]]"

text \<open>One leading character of the given ones is removed, if the string starts with one.\<close>

fun stripOne :: "string list \<Rightarrow> string \<Rightarrow> string option" where
  "stripOne [] s = None"
| "stripOne (ws # wss) s =
     (if ws \<noteq> [] \<and> take (length ws) s = ws then Some (drop (length ws) s)
      else stripOne wss s)"

lemma stripOne_shorter: "stripOne wss s = Some rest \<Longrightarrow> length rest < length s"
proof (induction wss)
  case Nil
  then show ?case by simp
next
  case (Cons ws wss)
  show ?case
  proof (cases "ws \<noteq> [] \<and> take (length ws) s = ws")
    case True
    with Cons.prems have rest: "rest = drop (length ws) s" by simp
    from True have le: "length ws \<le> length s"
      by (metis length_take min.cobounded2 min_def nat_le_linear take_all)
    from True have pos: "0 < length ws" by simp
    from le pos show ?thesis unfolding rest length_drop by linarith
  next
    case False
    with Cons show ?thesis by auto
  qed
qed

function stripAll :: "string list \<Rightarrow> string \<Rightarrow> string" where
  "stripAll wss s = (case stripOne wss s of None \<Rightarrow> s | Some rest \<Rightarrow> stripAll wss rest)"
  by pat_completeness auto
termination
  by (relation "measure (\<lambda>(wss, s). length s)") (auto simp: stripOne_shorter)

declare stripAll.simps [simp del]

text \<open>\<^verbatim>\<open>String.prototype.trim\<close>: white space is removed at both ends.\<close>

definition trim :: "string \<Rightarrow> string" where
  "trim s = rev (stripAll (map rev whiteSpace) (rev (stripAll whiteSpace s)))"

text \<open>
  \<^verbatim>\<open>String.prototype.toLowerCase\<close> on the letters A to Z. The program compares the
  result with \<^verbatim>\<open>sair\<close> only, and no character outside A to Z has s, a, i or r as its
  lower case (that of U+0130 is i followed by U+0307), so the other characters are left
  as they are.
\<close>

definition lowerChar :: "char \<Rightarrow> char" where
  "lowerChar c =
     (case map_of (zip ''ABCDEFGHIJKLMNOPQRSTUVWXYZ'' ''abcdefghijklmnopqrstuvwxyz'') c of
        None \<Rightarrow> c
      | Some l \<Rightarrow> l)"

definition toLowerCase :: "string \<Rightarrow> string" where
  "toLowerCase s = map lowerChar s"

text \<open>
  \<^verbatim>\<open>s.replace(pat, rep)\<close> with a string pattern replaces the first occurrence
  of the pattern, wherever it is.
\<close>

fun replace :: "string \<Rightarrow> string \<Rightarrow> string \<Rightarrow> string" where
  "replace [] pat rep = (if pat = [] then rep else [])"
| "replace (c # cs) pat rep =
     (if take (length pat) (c # cs) = pat then rep @ drop (length pat) (c # cs)
      else c # replace cs pat rep)"

text \<open>\<^verbatim>\<open>s.substring(a, b)\<close>: the arguments are swapped when \<open>a > b\<close>.\<close>

definition substring :: "string \<Rightarrow> nat \<Rightarrow> nat \<Rightarrow> string" where
  "substring s a b = take (max a b - min a b) (drop (min a b) s)"

text \<open>\<^verbatim>\<open>phone.replace(/\D/g, '')\<close> keeps the decimal digits.\<close>

definition isDigit :: "char \<Rightarrow> bool" where
  "isDigit c = (c \<in> set ''0123456789'')"

definition digitsOnly :: "string \<Rightarrow> string" where
  "digitsOnly phone = filter isDigit phone"

text \<open>\<^verbatim>\<open>x || ''\<close> on a value that may be undefined.\<close>

definition orEmpty :: "string option \<Rightarrow> string" where
  "orEmpty v = (case v of None \<Rightarrow> [] | Some s \<Rightarrow> s)"

text \<open>\<^verbatim>\<open>!x\<close> on a configuration value: undefined and the empty string are falsy.\<close>

definition falsy :: "string option \<Rightarrow> bool" where
  "falsy v = (case v of None \<Rightarrow> True | Some s \<Rightarrow> s = [])"

section \<open>Documents and collections\<close>

text \<open>
  The document store holds three collections the reminder logic works on: the patients
  (\<^verbatim>\<open>idosos\<close>), the medications (\<^verbatim>\<open>medicamentos\<close>) and the reminder ledger
  (\<^verbatim>\<open>lembretes_status\<close>). Document ids are opaque keys, modelled as natural numbers;
  timestamps are the server's clock readings, also natural numbers. A collection is the
  list of its documents with their ids, in the order a query returns them. A field both
  patients and medications have, or both medications and ledger entries, carries a prefix
  in one of the records; a field a document may lack is an option.
\<close>

type_synonym doc_id = nat
type_synonym timestamp = nat
type_synonym 'a collection = "(doc_id \<times> 'a) list"

record idoso =
  idoso_nome :: string
  whatsapp :: string

record medicamento =
  med_idosoId :: doc_id
  med_nome :: string
  med_dosagem :: string
  ativo :: bool
  diasDaSemana :: "int list"
  horarios :: "string list"
  desativadoEm :: "timestamp option"

record lembrete =
  medicamentoId :: doc_id
  idosoId :: doc_id
  dataHora :: timestamp
  status :: string
  tentativas :: nat
  horarioOriginal :: string
  twilioSid :: "string option"
  twilioStatus :: "string option"
  erro :: "string option"
  ultimaResposta :: "timestamp option"
  respostaRecebida :: "string option"
  adiadoPor :: "nat option"

text \<open>An exception with its message.\<close>

datatype exception = RangeError string | Error string

text \<open>What a call of \<^verbatim>\<open>sendWhatsAppMessage\<close> returns: success with the message's sid and
  status, or failure with an error text.\<close>

datatype send_result = SendOk string string | SendFailed string

text \<open>
  Every effect on the outside world is logged in the order it happens: a batched write of
  new ledger entries, a single-document update or creation in the ledger, a batched update
  of medications, and a call of \<^verbatim>\<open>sendWhatsAppMessage\<close> with its recipient, its body and
  what came of it, the exception it threw or the result it returned.
\<close>

datatype event =
    BatchCommit "doc_id list"
  | LedgerUpdate doc_id
  | LedgerSet doc_id
  | MedicationBatchCommit "doc_id list"
  | SendMessage string string "exception + send_result"

record world =
  idosos :: "idoso collection"
  medicamentos :: "medicamento collection"
  lembretes_status :: "lembrete collection"
  events :: "event list"

definition doc_get :: "'a collection \<Rightarrow> doc_id \<Rightarrow> 'a option" where
  "doc_get c k = map_of c k"

definition doc_update :: "'a collection \<Rightarrow> doc_id \<Rightarrow> ('a \<Rightarrow> 'a) \<Rightarrow> 'a collection" where
  "doc_update c k f = map (\<lambda>(k', d). if k' = k then (k', f d) else (k', d)) c"

definition doc_set :: "'a collection \<Rightarrow> doc_id \<Rightarrow> 'a \<Rightarrow> 'a collection" where
  "doc_set c k d =
     (if k \<in> set (map fst c) then doc_update c k (\<lambda>_. d) else c @ [(k, d)])"

text \<open>\<^verbatim>\<open>collection.doc()\<close> makes a reference with an id no document has yet.\<close>

definition new_doc_id :: "'a collection \<Rightarrow> doc_id" where
  "new_doc_id c = Suc (fold max (map fst c) 0)"

definition log_event :: "event \<Rightarrow> world \<Rightarrow> world" where
  "log_event e w = w\<lparr>events := events w @ [e]\<rparr>"

section \<open>The messaging gateway\<close>

text \<open>
  The three values \<^verbatim>\<open>getTwilioConfig\<close> resolves (lines 48 to 65); a value may be
  missing.
\<close>

record twilio_config =
  cfg_sid :: "string option"
  cfg_token :: "string option"
  cfg_phone :: "string option"

text \<open>
  The gateway is outside the program. \<open>gw_twilio gw sid token\<close> is what the constructor
  \<^verbatim>\<open>twilio(sid, token)\<close> does: it returns a client, or throws the given exception.
  \<open>gw_create gw n from to body\<close> is what \<^verbatim>\<open>twilioClient.messages.create\<close> answers to
  the \<open>n\<close>-th send of an invocation, an error message or the message's sid and status.
\<close>

record gateway =
  gw_twilio :: "string \<Rightarrow> string \<Rightarrow> exception option"
  gw_create :: "nat \<Rightarrow> string \<Rightarrow> string \<Rightarrow> string \<Rightarrow> string + string \<times> string"

definition formatPhoneForWhatsApp :: "string \<Rightarrow> string" where
  "formatPhoneForWhatsApp phone =
     (let digits = digitsOnly phone in
      if length digits = 10 \<or> length digits = 11 then ''whatsapp:+55'' @ digits
      else ''whatsapp:+'' @ digits)"

text \<open>
  \<^verbatim>\<open>getTwilioClient\<close> (lines 68 to 75): null (\<open>None\<close>) without sid or token, otherwise
  what the constructor gives; an exception of the constructor passes through.
\<close>

datatype twilio_client = TwilioClient

definition getTwilioClient ::
  "twilio_config \<Rightarrow> gateway \<Rightarrow> exception + twilio_client option" where
  "getTwilioClient cfg gw =
     (if falsy (cfg_sid cfg) \<or> falsy (cfg_token cfg) then Inr None
      else (case gw_twilio gw (orEmpty (cfg_sid cfg)) (orEmpty (cfg_token cfg)) of
              Some e \<Rightarrow> Inl e
            | None \<Rightarrow> Inr (Some TwilioClient)))"

text \<open>
  \<^verbatim>\<open>sendWhatsAppMessage\<close> from line 89 on, with the client line 88 has obtained: the
  check of client and sender, and the send inside \<^verbatim>\<open>try\<close>, whose failure becomes a
  result.
\<close>

definition sendVia ::
  "twilio_client option \<Rightarrow> twilio_config \<Rightarrow> gateway \<Rightarrow> nat \<Rightarrow> string \<Rightarrow> string \<Rightarrow>
   send_result" where
  "sendVia twilioClient cfg gw n to message =
     (if twilioClient = None \<or> falsy (cfg_phone cfg) then SendFailed ''Twilio not configured''
      else (case gw_create gw n (orEmpty (cfg_phone cfg)) (formatPhoneForWhatsApp to) message of
              Inl e \<Rightarrow> SendFailed e
            | Inr (sid, st) \<Rightarrow> SendOk sid st))"

text \<open>
  \<^verbatim>\<open>sendWhatsAppMessage\<close> (lines 87 to 111). Line 88 is outside the \<^verbatim>\<open>try\<close>: an
  exception of the constructor leaves the function.
\<close>

definition sendWhatsAppMessage ::
  "twilio_config \<Rightarrow> gateway \<Rightarrow> nat \<Rightarrow> string \<Rightarrow> string \<Rightarrow> exception + send_result" where
  "sendWhatsAppMessage cfg gw n to message =
     (case getTwilioClient cfg gw of
        Inl e \<Rightarrow> Inl e
      | Inr twilioClient \<Rightarrow> Inr (sendVia twilioClient cfg gw n to message))"

definition createReminderMessage :: "string \<Rightarrow> string \<Rightarrow> string \<Rightarrow> string" where
  "createReminderMessage nomeIdoso medicacao dosagem =
     ''Ol'' @ [CHR 0xC3, CHR 0xA1] @ '', '' @ nomeIdoso @ '' '' @
     [CHR 0xF0, CHR 0x9F, CHR 0x91, CHR 0x8B] @ '' '' @ [CHR 0xE2, CHR 0x80, CHR 0x94] @
     '' Hora do rem'' @ [CHR 0xC3, CHR 0xA9] @ ''dio '' @ medicacao @ '' ('' @ dosagem @
     ''). Responda: 1) '' @ [CHR 0xE2, CHR 0x9C, CHR 0x85] @ '' Tomei 2) '' @
     [CHR 0xE2, CHR 0x9D, CHR 0x8C] @ '' N'' @ [CHR 0xC3, CHR 0xA3] @ ''o tomei 3) '' @
     [CHR 0xE2, CHR 0x8F, CHR 0xB3] @ '' Adiar 10 min.''"

section \<open>The schedule matcher\<close>

text \<open>
  Lines 166 to 173 of \<^verbatim>\<open>checkMedicationReminders\<close>: the weekday list must include the
  current day, and some entry of the time list, cut to its first five characters, must be
  the current time.
\<close>

definition array_includes :: "'a list \<Rightarrow> 'a \<Rightarrow> bool" where
  "array_includes xs x = (x \<in> set xs)"

definition isTimeToRemind :: "medicamento \<Rightarrow> string \<Rightarrow> bool" where
  "isTimeToRemind m currentTime =
     list_ex (\<lambda>horario. substring horario 0 5 = currentTime) (horarios m)"

definition is_due :: "medicamento \<Rightarrow> int \<Rightarrow> string \<Rightarrow> bool" where
  "is_due m currentDay currentTime =
     (if \<not> array_includes (diasDaSemana m) currentDay then False
      else isTimeToRemind m currentTime)"

section \<open>The clock\<close>

text \<open>
  The date formatter is outside the program. \<open>rt_time rt\<close> is what \<^verbatim>\<open>toLocaleString\<close>
  renders under the options of lines 120 to 125, and \<open>rt_weekday rt style\<close> what
  \<^verbatim>\<open>toLocaleDateString\<close> renders for a weekday style the formatter admits.
\<close>

record runtime =
  rt_time :: string
  rt_weekday :: "string \<Rightarrow> string"

text \<open>
  The formatter reads its option \<^verbatim>\<open>weekday\<close> against the values it admits, which are
  \<^verbatim>\<open>narrow\<close>, \<^verbatim>\<open>short\<close> and \<^verbatim>\<open>long\<close> (ECMA-402, where a \<^verbatim>\<open>DateTimeFormat\<close> is
  created), and throws a \<^verbatim>\<open>RangeError\<close> for any other value. The message is the one
  of the engine of Node.
\<close>

definition weekdayOption :: "string \<Rightarrow> exception + string" where
  "weekdayOption v =
     (if array_includes [''narrow'', ''short'', ''long''] v then Inr v
      else Inl (RangeError (''Value '' @ v @
             '' out of range for Intl.DateTimeFormat options property weekday'')))"

definition getCurrentBrazilTime :: "runtime \<Rightarrow> string" where
  "getCurrentBrazilTime rt = rt_time rt"

text \<open>\<^verbatim>\<open>getCurrentDayOfWeek\<close> (lines 129 to 134) asks for the weekday style \<^verbatim>\<open>numeric\<close>.\<close>

definition getCurrentDayOfWeek :: "runtime \<Rightarrow> exception + string" where
  "getCurrentDayOfWeek rt =
     (case weekdayOption ''numeric'' of
        Inl e \<Rightarrow> Inl e
      | Inr style \<Rightarrow> Inr (rt_weekday rt style))"

text \<open>
  \<^verbatim>\<open>parseInt\<close> without a radix: leading white space and a sign are passed over, the digits
  that follow (hexadecimal after \<^verbatim>\<open>0x\<close>) give the value, and without a digit the result is
  \<^verbatim>\<open>NaN\<close> (\<open>None\<close>). The value is the exact integer, as a number holds it up to
  \<^verbatim>\<open>2^53\<close>.
\<close>

definition digitOf :: "nat \<Rightarrow> char \<Rightarrow> nat option" where
  "digitOf radix c =
     (case map_of (zip ''0123456789abcdef'' [0 ..< 16]) (lowerChar c) of
        None \<Rightarrow> None
      | Some d \<Rightarrow> if d < radix then Some d else None)"

definition parseInt :: "string \<Rightarrow> int option" where
  "parseInt s =
     (let t = stripAll whiteSpace s;
          u = (if take 1 t = ''-'' \<or> take 1 t = ''+'' then drop 1 t else t);
          radix = (if toLowerCase (take 2 u) = ''0x'' then 16 else 10);
          v = (if toLowerCase (take 2 u) = ''0x'' then drop 2 u else u);
          z = takeWhile (\<lambda>c. digitOf radix c \<noteq> None) v;
          mathInt = fold (\<lambda>c n. n * radix + (case digitOf radix c of None \<Rightarrow> 0 | Some d \<Rightarrow> d)) z 0
      in if z = [] then None
         else Some (if take 1 t = ''-'' then - int mathInt else int mathInt))"

text \<open>The operator \<^verbatim>\<open>%\<close> on integers: the result has the sign of the dividend.\<close>

definition remainder :: "int \<Rightarrow> int \<Rightarrow> int" where
  "remainder a b = sgn a * (\<bar>a\<bar> mod \<bar>b\<bar>)"

section \<open>The dispatcher tick\<close>

text \<open>
  \<^verbatim>\<open>checkMedicationReminders\<close>, lines 141 to 223. The server's time at the batch commit
  is an input of the model.
\<close>

record reminder =
  rem_idoso :: idoso
  rem_medicamento :: medicamento
  lembreteId :: doc_id

text \<open>
  The first loop (lines 163 to 191) fills the batch and the list of reminders to send. A
  medication whose patient record is missing is passed over (line 175). The loop has no
  \<^verbatim>\<open>try\<close> of its own; on the documents and the store of the model none of its steps
  throws.
\<close>

fun collectReminders ::
  "world \<Rightarrow> int \<Rightarrow> string \<Rightarrow> timestamp \<Rightarrow> medicamento collection \<Rightarrow>
   lembrete collection \<times> reminder list \<Rightarrow> lembrete collection \<times> reminder list" where
  "collectReminders w currentDay currentTime now [] acc = acc"
| "collectReminders w currentDay currentTime now ((mid, m) # docs) (batch, remindersToSend) =
     (if \<not> array_includes (diasDaSemana m) currentDay
      then collectReminders w currentDay currentTime now docs (batch, remindersToSend)
      else if isTimeToRemind m currentTime then
        (case doc_get (idosos w) (med_idosoId m) of
           None \<Rightarrow> collectReminders w currentDay currentTime now docs (batch, remindersToSend)
         | Some i \<Rightarrow>
             (let lembreteStatusRef = new_doc_id (lembretes_status w @ batch);
                  lembreteStatus = \<lparr>medicamentoId = mid, idosoId = med_idosoId m,
                    dataHora = now, status = ''enviado'', tentativas = 1,
                    horarioOriginal = currentTime, twilioSid = None, twilioStatus = None,
                    erro = None, ultimaResposta = None, respostaRecebida = None,
                    adiadoPor = None\<rparr>
              in collectReminders w currentDay currentTime now docs
                   (batch @ [(lembreteStatusRef, lembreteStatus)],
                    remindersToSend @
                      [\<lparr>rem_idoso = i, rem_medicamento = m, lembreteId = lembreteStatusRef\<rparr>])))
      else collectReminders w currentDay currentTime now docs (batch, remindersToSend))"

text \<open>\<^verbatim>\<open>batch.commit()\<close> writes every entry of the batch, as one logged effect.\<close>

definition batch_commit :: "lembrete collection \<Rightarrow> world \<Rightarrow> world" where
  "batch_commit batch w =
     log_event (BatchCommit (map fst batch))
       (w\<lparr>lembretes_status := fold (\<lambda>(k, d) c. doc_set c k d) batch (lembretes_status w)\<rparr>)"

text \<open>The state after line 195, with the reminders still to be delivered.\<close>

definition commitReminders ::
  "int \<Rightarrow> string \<Rightarrow> timestamp \<Rightarrow> world \<Rightarrow> world \<times> reminder list" where
  "commitReminders currentDay currentTime now w =
     (let medicamentosSnapshot = filter (\<lambda>(k, m). ativo m = True) (medicamentos w) in
      if medicamentosSnapshot = [] then (w, [])
      else
        (let (batch, remindersToSend) =
               collectReminders w currentDay currentTime now medicamentosSnapshot ([], [])
         in if length remindersToSend > 0 then (batch_commit batch w, remindersToSend)
            else (w, remindersToSend)))"

text \<open>
  The second loop (lines 197 to 217): one send per reminder, and its outcome recorded.
  The loop has no \<^verbatim>\<open>try\<close> of its own: an exception of a send ends it.
\<close>

fun deliverReminders ::
  "twilio_config \<Rightarrow> gateway \<Rightarrow> nat \<Rightarrow> reminder list \<Rightarrow> world \<Rightarrow> exception option \<times> world" where
  "deliverReminders cfg gw n [] w = (None, w)"
| "deliverReminders cfg gw n (r # rest) w =
     (let message = createReminderMessage (idoso_nome (rem_idoso r))
                      (med_nome (rem_medicamento r)) (med_dosagem (rem_medicamento r))
      in case sendWhatsAppMessage cfg gw n (whatsapp (rem_idoso r)) message of
           Inl e \<Rightarrow> (Some e, log_event (SendMessage (whatsapp (rem_idoso r)) message (Inl e)) w)
         | Inr result \<Rightarrow>
             (let w1 = log_event (SendMessage (whatsapp (rem_idoso r)) message (Inr result)) w;
                  w2 = (case result of
                          SendOk sid st \<Rightarrow>
                            log_event (LedgerUpdate (lembreteId r))
                              (w1\<lparr>lembretes_status :=
                                    doc_update (lembretes_status w1) (lembreteId r)
                                      (\<lambda>d. d\<lparr>twilioSid := Some sid, twilioStatus := Some st\<rparr>)\<rparr>)
                        | SendFailed e \<Rightarrow>
                            log_event (LedgerUpdate (lembreteId r))
                              (w1\<lparr>lembretes_status :=
                                    doc_update (lembretes_status w1) (lembreteId r)
                                      (\<lambda>d. d\<lparr>status := ''erro'', erro := Some e\<rparr>)\<rparr>))
              in deliverReminders cfg gw (Suc n) rest w2))"

text \<open>
  Lines 150 to 218, with the time and the day lines 147 and 148 have computed. The result
  is the exception that ended the run, if one did, and the state reached.
\<close>

definition dispatchReminders ::
  "twilio_config \<Rightarrow> gateway \<Rightarrow> int \<Rightarrow> string \<Rightarrow> timestamp \<Rightarrow> world \<Rightarrow>
   exception option \<times> world" where
  "dispatchReminders cfg gw currentDay currentTime now w =
     (let (w1, remindersToSend) = commitReminders currentDay currentTime now w
      in deliverReminders cfg gw 0 remindersToSend w1)"

text \<open>
  The whole of \<^verbatim>\<open>checkMedicationReminders\<close>. The \<^verbatim>\<open>catch\<close> of lines 219 to 222 throws
  again what it has caught, so an exception of lines 147 to 218 is the outcome of the
  tick. The day \<^verbatim>\<open>NaN\<close> is in no weekday list: the first loop passes over every medication
  and nothing is written or sent.
\<close>

definition checkMedicationReminders ::
  "twilio_config \<Rightarrow> gateway \<Rightarrow> runtime \<Rightarrow> timestamp \<Rightarrow> world \<Rightarrow> exception option \<times> world" where
  "checkMedicationReminders cfg gw rt now w =
     (let currentTime = getCurrentBrazilTime rt
      in case getCurrentDayOfWeek rt of
           Inl e \<Rightarrow> (Some e, w)
         | Inr dayText \<Rightarrow>
             (case parseInt dayText of
                None \<Rightarrow> (None, w)
              | Some n \<Rightarrow> dispatchReminders cfg gw (remainder n 7) currentTime now w))"

text \<open>
  Notions used to state what a tick does: the active medications that are due now and
  whose patient record exists, in the order of the store; the text of a reminder and the
  result of its send; and a ledger entry after the outcome of its delivery is recorded
  (lines 206 to 216).
\<close>

definition due_medications :: "world \<Rightarrow> int \<Rightarrow> string \<Rightarrow> medicamento collection" where
  "due_medications w currentDay currentTime =
     filter (\<lambda>(mid, m). is_due m currentDay currentTime \<and>
                         doc_get (idosos w) (med_idosoId m) \<noteq> None)
       (filter (\<lambda>(k, m). ativo m = True) (medicamentos w))"

abbreviation reminderMessage :: "reminder \<Rightarrow> string" where
  "reminderMessage r \<equiv>
     createReminderMessage (idoso_nome (rem_idoso r)) (med_nome (rem_medicamento r))
       (med_dosagem (rem_medicamento r))"


definition recordOutcome :: "send_result \<Rightarrow> lembrete \<Rightarrow> lembrete" where
  "recordOutcome result d =
     (case result of
        SendOk sid st \<Rightarrow> d\<lparr>twilioSid := Some sid, twilioStatus := Some st\<rparr>
      | SendFailed e \<Rightarrow> d\<lparr>status := ''erro'', erro := Some e\<rparr>)"

definition sentEntry :: "doc_id \<Rightarrow> medicamento \<Rightarrow> timestamp \<Rightarrow> string \<Rightarrow> lembrete" where
  "sentEntry mid m now currentTime =
     \<lparr>medicamentoId = mid, idosoId = med_idosoId m, dataHora = now, status = ''enviado'',
      tentativas = 1, horarioOriginal = currentTime, twilioSid = None, twilioStatus = None,
      erro = None, ultimaResposta = None, respostaRecebida = None, adiadoPor = None\<rparr>"

section \<open>The reply webhook\<close>

text \<open>
  The query of lines 249 to 255: the patient's ledger entries in status \<^verbatim>\<open>enviado\<close>,
  ordered by creation time, latest first, cut to one document.
\<close>

definition orderBy_dataHora_desc :: "lembrete collection \<Rightarrow> lembrete collection" where
  "orderBy_dataHora_desc c = sort_key (\<lambda>(k, d). - int (dataHora d)) c"

definition latest_pending :: "lembrete collection \<Rightarrow> doc_id \<Rightarrow> lembrete collection" where
  "latest_pending c iid =
     take 1 (orderBy_dataHora_desc
       (filter (\<lambda>(k, d). idosoId d = iid \<and> status d = ''enviado'') c))"

definition statusMap :: "(string \<times> string) list" where
  "statusMap = [(''1'', ''tomou''), (''2'', ''nao_tomou''), (''3'', ''adiado'')]"

definition confirmationMessages :: "idoso \<Rightarrow> (string \<times> string) list" where
  "confirmationMessages i =
     [(''1'', ''Perfeito, '' @ idoso_nome i @ ''! '' @ [CHR 0xE2, CHR 0x9C, CHR 0x94] @
              '' Registramos que voc'' @ [CHR 0xC3, CHR 0xAA] @ '' tomou o medicamento.''),
      (''2'', ''Entendido. Foi registrado que o medicamento n'' @ [CHR 0xC3, CHR 0xA3] @
              ''o foi tomado.''),
      (''3'', ''Ok, vamos lembrar de novo em 10 minutos '' @ [CHR 0xE2, CHR 0x80, CHR 0x94] @
              '' responda 1 quando tomar :)'')]"

definition optOutMessage :: "idoso \<Rightarrow> string" where
  "optOutMessage i =
     idoso_nome i @ '', os lembretes foram interrompidos conforme solicitado.''"

definition helpMessage :: string where
  "helpMessage =
     ''Resposta n'' @ [CHR 0xC3, CHR 0xA3] @ ''o reconhecida. Responda:'' @ [CHR 0x0A] @
     ''1 - Tomei'' @ [CHR 0x0A] @ ''2 - N'' @ [CHR 0xC3, CHR 0xA3] @ ''o tomei'' @ [CHR 0x0A] @
     ''3 - Adiar'' @ [CHR 0x0A] @ ''Ou envie '' @ [CHR 0x22] @ ''SAIR'' @ [CHR 0x22] @
     '' para parar.''"

text \<open>
  A call of \<^verbatim>\<open>sendWhatsAppMessage\<close> whose result the caller does not look at; an
  exception of the call passes to the caller.
\<close>

definition send_logged ::
  "twilio_config \<Rightarrow> gateway \<Rightarrow> nat \<Rightarrow> string \<Rightarrow> string \<Rightarrow> world \<Rightarrow> exception option \<times> world" where
  "send_logged cfg gw n to body w =
     (case sendWhatsAppMessage cfg gw n to body of
        Inl e \<Rightarrow> (Some e, log_event (SendMessage to body (Inl e)) w)
      | Inr result \<Rightarrow> (None, log_event (SendMessage to body (Inr result)) w))"

text \<open>
  The ledger writes of a reply with a code (lines 249 to 278): the latest pending entry
  of the patient, if there is one, gets the new status, and for \<^verbatim>\<open>3\<close> a postponed entry
  is created.
\<close>

definition recordReply ::
  "timestamp \<Rightarrow> timestamp \<Rightarrow> doc_id \<Rightarrow> string \<Rightarrow> string \<Rightarrow> world \<Rightarrow> world" where
  "recordReply now now' iid message newStatus w =
     (let lembreteSnapshot = latest_pending (lembretes_status w) iid
      in case lembreteSnapshot of
           [] \<Rightarrow> w
         | (lid, lembreteData) # _ \<Rightarrow>
             (let w1 = log_event (LedgerUpdate lid)
                    (w\<lparr>lembretes_status := doc_update (lembretes_status w) lid
                       (\<lambda>d. d\<lparr>status := newStatus, ultimaResposta := Some now,
                              respostaRecebida := Some message\<rparr>)\<rparr>)
              in if message = ''3'' then
                   (let delayedReminderRef = new_doc_id (lembretes_status w1) in
                    log_event (LedgerSet delayedReminderRef)
                      (w1\<lparr>lembretes_status :=
                         doc_set (lembretes_status w1) delayedReminderRef
                           \<lparr>medicamentoId = medicamentoId lembreteData,
                            idosoId = iid, dataHora = now',
                            status = ''agendado_adiado'', tentativas = 1,
                            horarioOriginal = horarioOriginal lembreteData,
                            twilioSid = None, twilioStatus = None, erro = None,
                            ultimaResposta = None, respostaRecebida = None,
                            adiadoPor = Some 10\<rparr>\<rparr>))
                 else w1))"

text \<open>
  The branch of a reply \<^verbatim>\<open>1\<close>, \<^verbatim>\<open>2\<close> or \<^verbatim>\<open>3\<close> (lines 245 to 286): the ledger writes,
  then the confirmation. The two table lookups are defined on the three codes, the only
  messages the branch is entered with.
\<close>

definition replyCode ::
  "twilio_config \<Rightarrow> gateway \<Rightarrow> timestamp \<Rightarrow> timestamp \<Rightarrow> doc_id \<Rightarrow> idoso \<Rightarrow>
   string \<Rightarrow> string \<Rightarrow> world \<Rightarrow> exception option \<times> world" where
  "replyCode cfg gw now now' iid i phoneNumber message w =
     (case map_of statusMap message of
        None \<Rightarrow> (None, w)
      | Some newStatus \<Rightarrow>
          (let w2 = recordReply now now' iid message newStatus w
           in (case map_of (confirmationMessages i) message of
                 None \<Rightarrow> (None, w2)
               | Some body \<Rightarrow> send_logged cfg gw 0 phoneNumber body w2)))"

text \<open>The branch of the stop keyword (lines 287 to 306).\<close>

definition replySair ::
  "twilio_config \<Rightarrow> gateway \<Rightarrow> timestamp \<Rightarrow> doc_id \<Rightarrow> idoso \<Rightarrow> string \<Rightarrow> world \<Rightarrow>
   exception option \<times> world" where
  "replySair cfg gw now iid i phoneNumber w =
     (let medicamentosSnapshot =
            filter (\<lambda>(k, m). med_idosoId m = iid \<and> ativo m = True) (medicamentos w);
          w1 = log_event (MedicationBatchCommit (map fst medicamentosSnapshot))
                 (w\<lparr>medicamentos :=
                    fold (\<lambda>(k, m) c. doc_update c k
                            (\<lambda>d. d\<lparr>ativo := False, desativadoEm := Some now\<rparr>))
                      medicamentosSnapshot (medicamentos w)\<rparr>)
      in send_logged cfg gw 0 phoneNumber (optOutMessage i) w1)"

text \<open>
  The JSON answers of the webhook: success (line 314), patient not found (line 239), and
  the answer with status 500 that the \<^verbatim>\<open>catch\<close> of lines 315 to 318 gives to an exception.
\<close>

datatype response = Success | NotFound | ServerError exception

text \<open>
  \<^verbatim>\<open>handleWhatsAppWebhook\<close>, lines 226 to 320: the sender without the transport
  prefix (line 230), the trimmed body (line 231), the patients registered under the
  sender's number without the country code (lines 233 to 236), then the three branches.
  \<open>now\<close> and \<open>now'\<close> are the server's times at the first and the second write of the
  invocation.
\<close>

definition phoneNumberOf :: "string option \<Rightarrow> string" where
  "phoneNumberOf From = orEmpty (map_option (\<lambda>f. replace f ''whatsapp:'' []) From)"

definition messageOf :: "string option \<Rightarrow> string" where
  "messageOf Body = orEmpty (map_option trim Body)"

definition idososByWhatsapp :: "world \<Rightarrow> string \<Rightarrow> idoso collection" where
  "idososByWhatsapp w phoneNumber =
     filter (\<lambda>(k, i). whatsapp i = replace phoneNumber ''+55'' []) (idosos w)"

definition handleWhatsAppWebhook ::
  "twilio_config \<Rightarrow> gateway \<Rightarrow> timestamp \<Rightarrow> timestamp \<Rightarrow> string option \<Rightarrow>
   string option \<Rightarrow> world \<Rightarrow> response \<times> world" where
  "handleWhatsAppWebhook cfg gw now now' From Body w =
     (let phoneNumber = phoneNumberOf From;
          message = messageOf Body;
          idososSnapshot = idososByWhatsapp w phoneNumber
      in case idososSnapshot of
           [] \<Rightarrow> (NotFound, w)
         | (iid, i) # _ \<Rightarrow>
             (let (thrown, w') =
                    (if array_includes [''1'', ''2'', ''3''] message
                     then replyCode cfg gw now now' iid i phoneNumber message w
                     else if toLowerCase message = ''sair''
                     then replySair cfg gw now iid i phoneNumber w
                     else send_logged cfg gw 0 phoneNumber helpMessage w)
              in case thrown of
                   None \<Rightarrow> (Success, w')
                 | Some e \<Rightarrow> (ServerError e, w')))"

section \<open>Example data\<close>

text \<open>
  A small store used to run the functions on concrete inputs: two patients, a medication
  of each, one of a patient whose record is missing and an inactive one, and a ledger with
  entries in several states. The example gateway makes a client for an account sid that
  starts with \<^verbatim>\<open>AC\<close> and throws for any other, fails the first send of an invocation and
  accepts the later ones. The example formatter renders the Monday morning of a tick.
\<close>

definition ex_config :: twilio_config where
  "ex_config = \<lparr>cfg_sid = Some ''AC01'', cfg_token = Some ''secret'',
                 cfg_phone = Some ''whatsapp:+14155238886''\<rparr>"

definition ex_gateway :: gateway where
  "ex_gateway =
     \<lparr>gw_twilio = (\<lambda>sid token. if take 2 sid = ''AC'' then None
                                 else Some (Error ''accountSid must start with AC'')),
      gw_create = (\<lambda>n sender to body. if n = 0 then Inl ''unreachable''
                                        else Inr (''SM01'', ''queued''))\<rparr>"

definition ex_runtime :: runtime where
  "ex_runtime =
     \<lparr>rt_time = ''09:00'',
      rt_weekday = (\<lambda>style. if style = ''long'' then ''Monday''
                              else if style = ''short'' then ''Mon'' else ''M'')\<rparr>"

definition ex_ana :: idoso where
  "ex_ana = \<lparr>idoso_nome = ''Ana'', whatsapp = ''11999990000''\<rparr>"

definition ex_rui :: idoso where
  "ex_rui = \<lparr>idoso_nome = ''Rui'', whatsapp = ''11888880000''\<rparr>"

definition ex_idosos :: "idoso collection" where
  "ex_idosos = [(1, ex_ana), (2, ex_rui)]"

definition ex_losartana :: medicamento where
  "ex_losartana =
     \<lparr>med_idosoId = 1, med_nome = ''Losartana'', med_dosagem = ''50mg'', ativo = True,
      diasDaSemana = [1, 3, 5], horarios = [''09:00''], desativadoEm = None\<rparr>"

definition ex_aas :: medicamento where
  "ex_aas =
     \<lparr>med_idosoId = 7, med_nome = ''AAS'', med_dosagem = ''100mg'', ativo = True,
      diasDaSemana = [1], horarios = [''09:00''], desativadoEm = None\<rparr>"

definition ex_metformina :: medicamento where
  "ex_metformina =
     \<lparr>med_idosoId = 2, med_nome = ''Metformina'', med_dosagem = ''850mg'', ativo = True,
      diasDaSemana = [1, 2], horarios = [''09:00'', ''21:00''], desativadoEm = None\<rparr>"

definition ex_sinvastatina :: medicamento where
  "ex_sinvastatina =
     \<lparr>med_idosoId = 1, med_nome = ''Sinvastatina'', med_dosagem = ''20mg'', ativo = False,
      diasDaSemana = [1], horarios = [''09:00''], desativadoEm = Some 50\<rparr>"

definition ex_medicamentos :: "medicamento collection" where
  "ex_medicamentos =
     [(10, ex_losartana), (11, ex_aas), (12, ex_metformina), (13, ex_sinvastatina)]"

definition ex_lembrete :: "doc_id \<Rightarrow> doc_id \<Rightarrow> timestamp \<Rightarrow> string \<Rightarrow> string \<Rightarrow> lembrete" where
  "ex_lembrete med pat created st hhmm =
     \<lparr>medicamentoId = med, idosoId = pat, dataHora = created, status = st, tentativas = 1,
      horarioOriginal = hhmm, twilioSid = Some ''SM00'', twilioStatus = Some ''queued'',
      erro = None, ultimaResposta = None, respostaRecebida = None, adiadoPor = None\<rparr>"

definition ex_ledger :: "lembrete collection" where
  "ex_ledger =
     [(20, ex_lembrete 10 1 100 ''enviado'' ''09:00''),
      (21, ex_lembrete 12 2 100 ''enviado'' ''09:00''),
      (22, ex_lembrete 10 1 300 ''enviado'' ''09:00''),
      (23, ex_lembrete 10 1 500 ''tomou'' ''09:00'')]"

definition ex_world :: world where
  "ex_world = \<lparr>idosos = ex_idosos, medicamentos = ex_medicamentos,
                lembretes_status = ex_ledger, events = []\<rparr>"

section \<open>Properties of the schedule matcher\<close>

lemma isTimeToRemind_iff:
  "isTimeToRemind m t \<longleftrightarrow> (\<exists>h\<in>set (horarios m). take 5 h = t)"
  by (simp add: isTimeToRemind_def substring_def list_ex_iff)

lemma is_due_iff:
  "is_due m d t \<longleftrightarrow> d \<in> set (diasDaSemana m) \<and> (\<exists>h\<in>set (horarios m). take 5 h = t)"
  by (simp add: is_due_def array_includes_def isTimeToRemind_iff)

text \<open>
  Claim C2. The matcher fires exactly when the current day is in the medication's weekday
  list and the current time equals one of its time entries at minute granularity, that is,
  equals the \<^verbatim>\<open>HH:MM\<close> part of the entry, its first five characters, as a string; there
  is no tolerance window. For an entry of at most five characters the \<^verbatim>\<open>HH:MM\<close> part
  is the entry itself, so the test is equality with the entry, and an entry \<^verbatim>\<open>09:00\<close>
  does not fire at \<^verbatim>\<open>09:01\<close>.
\<close>

theorem is_due_matches_truncated_entry:
  "(is_due m currentDay currentTime \<longleftrightarrow>
      currentDay \<in> set (diasDaSemana m) \<and>
      (\<exists>horario\<in>set (horarios m). take 5 horario = currentTime))
   \<and> ((\<forall>horario\<in>set (horarios m). length horario \<le> 5) \<longrightarrow>
        (is_due m currentDay currentTime \<longleftrightarrow>
           currentDay \<in> set (diasDaSemana m) \<and> currentTime \<in> set (horarios m)))
   \<and> (horarios m = [''09:00''] \<longrightarrow> \<not> is_due m currentDay ''09:01'')"
proof (intro conjI impI)
  show "is_due m currentDay currentTime \<longleftrightarrow>
      currentDay \<in> set (diasDaSemana m) \<and>
      (\<exists>horario\<in>set (horarios m). take 5 horario = currentTime)"
    by (rule is_due_iff)
next
  assume short: "\<forall>horario\<in>set (horarios m). length horario \<le> 5"
  then have "(\<exists>h\<in>set (horarios m). take 5 h = currentTime) \<longleftrightarrow>
      currentTime \<in> set (horarios m)"
    by auto
  then show "is_due m currentDay currentTime \<longleftrightarrow>
           currentDay \<in> set (diasDaSemana m) \<and> currentTime \<in> set (horarios m)"
    by (simp add: is_due_iff)
next
  assume "horarios m = [''09:00'']"
  then show "\<not> is_due m currentDay ''09:01''"
    by (simp add: is_due_iff)
qed

text \<open>
  The theorem at a medication taken on Mondays, Wednesdays and Fridays at \<^verbatim>\<open>09:00\<close>: it
  fires on Wednesday at \<^verbatim>\<open>09:00\<close> and not one minute later.
\<close>

theorem is_due_matches_truncated_entry_witness:
  "is_due \<lparr>med_idosoId = 1, med_nome = ''Losartana'', med_dosagem = ''50mg'', ativo = True,
       diasDaSemana = [1, 3, 5], horarios = [''09:00''], desativadoEm = None\<rparr> 3 ''09:00''
   \<and> length ''09:00'' \<le> 5
   \<and> \<not> is_due \<lparr>med_idosoId = 1, med_nome = ''Losartana'', med_dosagem = ''50mg'',
       ativo = True, diasDaSemana = [1, 3, 5], horarios = [''09:00''],
       desativadoEm = None\<rparr> 3 ''09:01''"
  using is_due_matches_truncated_entry [of "\<lparr>med_idosoId = 1, med_nome = ''Losartana'',
       med_dosagem = ''50mg'', ativo = True, diasDaSemana = [1, 3, 5],
       horarios = [''09:00''], desativadoEm = None\<rparr>" 3 "''09:00''"]
  by simp

text \<open>
  An entry that carries seconds is matched on its \<^verbatim>\<open>HH:MM\<close> part: \<^verbatim>\<open>09:00:30\<close> fires
  at \<^verbatim>\<open>09:00\<close>.
\<close>

lemma is_due_entry_with_seconds:
  "is_due \<lparr>med_idosoId = 1, med_nome = ''Losartana'', med_dosagem = ''50mg'',
       ativo = True, diasDaSemana = [1], horarios = [''09:00:30''],
       desativadoEm = None\<rparr> 1 ''09:00''"
  by (simp add: is_due_def array_includes_def isTimeToRemind_def substring_def)

section \<open>Properties of the document store\<close>

lemma fold_max_bounds:
  "(a::nat) \<le> fold max ks a \<and> (\<forall>k\<in>set ks. k \<le> fold max ks a)"
proof (induction ks arbitrary: a)
  case Nil
  show ?case by simp
next
  case (Cons k ks)
  have "max k a \<le> fold max ks (max k a)" and "\<forall>j\<in>set ks. j \<le> fold max ks (max k a)"
    using Cons.IH [of "max k a"] by simp_all
  then show ?case by auto
qed

lemma new_doc_id_fresh: "new_doc_id c \<notin> set (map fst c)"
proof
  assume "new_doc_id c \<in> set (map fst c)"
  then have "new_doc_id c \<le> fold max (map fst c) 0"
    using fold_max_bounds [of 0 "map fst c"] by blast
  then show False by (simp add: new_doc_id_def)
qed

lemma map_fst_doc_update: "map fst (doc_update c k f) = map fst c"
  by (induction c) (auto simp: doc_update_def)

lemma new_doc_id_doc_update: "new_doc_id (doc_update c k f) = new_doc_id c"
  by (simp add: new_doc_id_def map_fst_doc_update)

lemma doc_set_fresh: "k \<notin> set (map fst c) \<Longrightarrow> doc_set c k d = c @ [(k, d)]"
  by (simp add: doc_set_def)

lemma doc_get_doc_update:
  "doc_get (doc_update c k f) k' =
     (if k' = k then map_option f (doc_get c k) else doc_get c k')"
  by (induction c) (auto simp: doc_update_def doc_get_def)

lemma doc_get_distinct:
  "distinct (map fst c) \<Longrightarrow> (k, d) \<in> set c \<Longrightarrow> doc_get c k = Some d"
  by (simp add: doc_get_def)

lemma doc_get_append_fresh:
  "k \<notin> set (map fst c) \<Longrightarrow> doc_get (c @ [(k, d)]) k' = (if k' = k then Some d else doc_get c k')"
  by (induction c) (auto simp: doc_get_def)

section \<open>The latest pending reminder\<close>

lemma latest_pending_length: "length (latest_pending c iid) \<le> 1"
  by (simp add: latest_pending_def)

lemma latest_pending_Nil_iff:
  "latest_pending c iid = [] \<longleftrightarrow>
     filter (\<lambda>(k, d). idosoId d = iid \<and> status d = ''enviado'') c = []"
proof -
  have "sort_key f xs = [] \<longleftrightarrow> xs = []" for f :: "doc_id \<times> lembrete \<Rightarrow> int" and xs
    using length_sort [of f xs] by (metis length_0_conv)
  then show ?thesis
    by (simp add: latest_pending_def orderBy_dataHora_desc_def take_Suc split: list.splits)
qed

lemma latest_pending_Cons:
  assumes "latest_pending c iid = (k, d) # rest"
  shows "rest = [] \<and> (k, d) \<in> set c \<and> idosoId d = iid \<and> status d = ''enviado'' \<and>
         (\<forall>(k', d')\<in>set c. idosoId d' = iid \<and> status d' = ''enviado'' \<longrightarrow>
            dataHora d' \<le> dataHora d)"
proof -
  define key :: "doc_id \<times> lembrete \<Rightarrow> int" where "key = (\<lambda>(k, d). - int (dataHora d))"
  define xs where "xs = filter (\<lambda>(k, d). idosoId d = iid \<and> status d = ''enviado'') c"
  define ys where "ys = sort_key key xs"
  have tk: "take 1 ys = (k, d) # rest"
    using assms by (simp add: latest_pending_def orderBy_dataHora_desc_def ys_def xs_def key_def)
  then obtain ys' where ys: "ys = (k, d) # ys'" and rest: "rest = []"
    by (cases ys) auto
  have "sorted (map key ys)" by (simp add: ys_def)
  then have "\<forall>y\<in>set ys. key (k, d) \<le> key y"
    by (auto simp: ys)
  moreover have sets: "set ys = set xs" by (simp add: ys_def)
  ultimately have least: "\<forall>y\<in>set xs. key (k, d) \<le> key y" by simp
  have "(k, d) \<in> set xs" using sets ys by auto
  then have mem: "(k, d) \<in> set c \<and> idosoId d = iid \<and> status d = ''enviado''"
    by (simp add: xs_def)
  have "\<forall>(k', d')\<in>set c. idosoId d' = iid \<and> status d' = ''enviado'' \<longrightarrow>
            dataHora d' \<le> dataHora d"
  proof (clarify)
    fix k' d' assume "(k', d') \<in> set c" "status d' = ''enviado''" "iid = idosoId d'"
    then have "(k', d') \<in> set xs" by (simp add: xs_def)
    then have "key (k, d) \<le> key (k', d')" using least by blast
    then show "dataHora d' \<le> dataHora d" by (simp add: key_def)
  qed
  with rest mem show ?thesis by simp
qed

text \<open>
  Claim C4. The query for a patient's latest pending reminder is empty exactly when no
  ledger entry of the patient has status \<^verbatim>\<open>enviado\<close>; it never holds more than one
  document; and a document it holds is an entry of the patient in status \<^verbatim>\<open>enviado\<close>
  whose creation time is the latest among all such entries.
\<close>

theorem latest_pending_is_latest_sent:
  "(latest_pending c iid = [] \<longleftrightarrow>
      \<not> (\<exists>(k, d)\<in>set c. idosoId d = iid \<and> status d = ''enviado''))
   \<and> length (latest_pending c iid) \<le> 1
   \<and> (\<forall>k d. (k, d) \<in> set (latest_pending c iid) \<longrightarrow>
        (k, d) \<in> set c \<and> idosoId d = iid \<and> status d = ''enviado'' \<and>
        (\<forall>(k', d')\<in>set c. idosoId d' = iid \<and> status d' = ''enviado'' \<longrightarrow>
           dataHora d' \<le> dataHora d))"
proof (intro conjI allI impI)
  show "latest_pending c iid = [] \<longleftrightarrow>
      \<not> (\<exists>(k, d)\<in>set c. idosoId d = iid \<and> status d = ''enviado'')"
    by (auto simp: latest_pending_Nil_iff filter_empty_conv)
next
  show "length (latest_pending c iid) \<le> 1" by (rule latest_pending_length)
next
  fix k d assume m: "(k, d) \<in> set (latest_pending c iid)"
  then obtain x rest where eq: "latest_pending c iid = x # rest"
    by (cases "latest_pending c iid") auto
  obtain k0 d0 where x: "x = (k0, d0)" by (cases x)
  from latest_pending_Cons [OF eq [unfolded x]] have r: "rest = []"
    and p: "(k0, d0) \<in> set c \<and> idosoId d0 = iid \<and> status d0 = ''enviado'' \<and>
         (\<forall>(k', d')\<in>set c. idosoId d' = iid \<and> status d' = ''enviado'' \<longrightarrow>
            dataHora d' \<le> dataHora d0)" by simp_all
  from m eq x r have "(k, d) = (k0, d0)" by simp
  with p show "(k, d) \<in> set c" "idosoId d = iid" "status d = ''enviado''"
     "\<forall>(k', d')\<in>set c. idosoId d' = iid \<and> status d' = ''enviado'' \<longrightarrow>
           dataHora d' \<le> dataHora d" by simp_all
qed

text \<open>
  In the example ledger the first patient has pending entries created at 100 and at 300
  and an answered one created at 500: the query gives the entry of 300. A patient with no
  entry gets an empty result.
\<close>

theorem latest_pending_is_latest_sent_witness:
  "latest_pending ex_ledger 1 = [(22, ex_lembrete 10 1 300 ''enviado'' ''09:00'')]
   \<and> (22, ex_lembrete 10 1 300 ''enviado'' ''09:00'') \<in> set ex_ledger
   \<and> dataHora (ex_lembrete 10 1 100 ''enviado'' ''09:00'')
        \<le> dataHora (ex_lembrete 10 1 300 ''enviado'' ''09:00'')
   \<and> latest_pending ex_ledger 3 = []"
proof -
  have latest: "latest_pending ex_ledger 1 = [(22, ex_lembrete 10 1 300 ''enviado'' ''09:00'')]"
    by (simp add: latest_pending_def orderBy_dataHora_desc_def ex_ledger_def ex_lembrete_def
        sort_key_def)
  then have held: "(22, ex_lembrete 10 1 300 ''enviado'' ''09:00'') \<in> set (latest_pending ex_ledger 1)"
    by simp
  note fact = latest_pending_is_latest_sent
    [of ex_ledger 1, THEN conjunct2, THEN conjunct2, rule_format, OF held]
  have stored: "(22, ex_lembrete 10 1 300 ''enviado'' ''09:00'') \<in> set ex_ledger"
    by (rule fact [THEN conjunct1])
  have older: "(20, ex_lembrete 10 1 100 ''enviado'' ''09:00'') \<in> set ex_ledger"
    by (simp add: ex_ledger_def)
  have "idosoId (ex_lembrete 10 1 100 ''enviado'' ''09:00'') = 1 \<and>
        status (ex_lembrete 10 1 100 ''enviado'' ''09:00'') = ''enviado''"
    by (simp add: ex_lembrete_def)
  with fact [THEN conjunct2, THEN conjunct2, THEN conjunct2, THEN bspec, OF older]
  have le: "dataHora (ex_lembrete 10 1 100 ''enviado'' ''09:00'')
        \<le> dataHora (ex_lembrete 10 1 300 ''enviado'' ''09:00'')"
    by simp
  have none: "latest_pending ex_ledger 3 = []"
    by (simp add: latest_pending_def orderBy_dataHora_desc_def ex_ledger_def ex_lembrete_def)
  from latest stored le none show ?thesis by blast
qed

section \<open>Replies with a code\<close>

lemma statusMap_lookup:
  "map_of statusMap ''1'' = Some ''tomou''"
  "map_of statusMap ''2'' = Some ''nao_tomou''"
  "map_of statusMap ''3'' = Some ''adiado''"
  by (simp_all add: statusMap_def)

lemma send_logged_world:
  "snd (send_logged cfg gw n to body w) =
     log_event (SendMessage to body (sendWhatsAppMessage cfg gw n to body)) w"
  by (simp add: send_logged_def split: sum.splits)


lemma webhook_known:
  assumes "idososByWhatsapp w (phoneNumberOf From) = (iid, i) # others"
  shows "handleWhatsAppWebhook cfg gw now now' From Body w =
           (let branch =
                  (if messageOf Body \<in> {''1'', ''2'', ''3''}
                   then replyCode cfg gw now now' iid i (phoneNumberOf From) (messageOf Body) w
                   else if toLowerCase (messageOf Body) = ''sair''
                   then replySair cfg gw now iid i (phoneNumberOf From) w
                   else send_logged cfg gw 0 (phoneNumberOf From) helpMessage w)
            in (case fst branch of None \<Rightarrow> Success | Some e \<Rightarrow> ServerError e, snd branch))"
  using assms
  by (simp add: handleWhatsAppWebhook_def array_includes_def Let_def case_prod_beta
      split: option.splits)

lemma webhook_code_branch:
  assumes "idososByWhatsapp w (phoneNumberOf From) = (iid, i) # others"
    and "messageOf Body \<in> {''1'', ''2'', ''3''}"
  shows "snd (handleWhatsAppWebhook cfg gw now now' From Body w) =
           snd (replyCode cfg gw now now' iid i (phoneNumberOf From) (messageOf Body) w)"
  using assms(2) by (simp add: webhook_known [OF assms(1)] Let_def)

lemma recordReply_ledger:
  "lembretes_status (recordReply now now' iid message newStatus w) =
     (case latest_pending (lembretes_status w) iid of
        [] \<Rightarrow> lembretes_status w
      | (lid, l) # _ \<Rightarrow>
          doc_update (lembretes_status w) lid
            (\<lambda>d. d\<lparr>status := newStatus, ultimaResposta := Some now,
                   respostaRecebida := Some message\<rparr>)
          @ (if message = ''3''
             then [(new_doc_id (lembretes_status w),
                    \<lparr>medicamentoId = medicamentoId l, idosoId = iid, dataHora = now',
                     status = ''agendado_adiado'', tentativas = 1,
                     horarioOriginal = horarioOriginal l, twilioSid = None,
                     twilioStatus = None, erro = None, ultimaResposta = None,
                     respostaRecebida = None, adiadoPor = Some 10\<rparr>)]
             else []))"
proof -
  have fresh: "new_doc_id (lembretes_status w) \<notin>
      set (map fst (doc_update (lembretes_status w) lid f))" for f lid
    by (simp add: map_fst_doc_update new_doc_id_fresh del: set_map)
  show ?thesis
    by (simp add: recordReply_def log_event_def Let_def new_doc_id_doc_update
        doc_set_fresh [OF fresh] split: list.splits)
qed

lemma recordReply_events:
  "events (recordReply now now' iid message newStatus w) =
     events w
     @ (case latest_pending (lembretes_status w) iid of
          [] \<Rightarrow> []
        | (lid, l) # _ \<Rightarrow>
            LedgerUpdate lid #
            (if message = ''3'' then [LedgerSet (new_doc_id (lembretes_status w))] else []))"
  by (simp add: recordReply_def log_event_def Let_def new_doc_id_doc_update split: list.splits)

lemma recordReply_other_collections:
  "idosos (recordReply now now' iid message newStatus w) = idosos w \<and>
   medicamentos (recordReply now now' iid message newStatus w) = medicamentos w"
  by (simp add: recordReply_def log_event_def Let_def split: list.splits)

lemma replyCode_unfold:
  assumes code: "message \<in> {''1'', ''2'', ''3''}"
  shows "\<exists>body. map_of (confirmationMessages i) message = Some body \<and>
           replyCode cfg gw now now' iid i phoneNumber message w =
             send_logged cfg gw 0 phoneNumber body
               (recordReply now now' iid message
                  (if message = ''1'' then ''tomou''
                   else if message = ''2'' then ''nao_tomou'' else ''adiado'') w)"
proof -
  from code consider "message = ''1''" | "message = ''2''" | "message = ''3''"
    by auto
  then show ?thesis
  proof cases
    case 1
    then show ?thesis
      by (simp add: replyCode_def statusMap_lookup confirmationMessages_def)
  next
    case 2
    then show ?thesis
      by (simp add: replyCode_def statusMap_lookup confirmationMessages_def)
  next
    case 3
    then show ?thesis
      by (simp add: replyCode_def statusMap_lookup confirmationMessages_def)
  qed
qed

lemma replyCode_ledger:
  assumes code: "message \<in> {''1'', ''2'', ''3''}"
  shows "lembretes_status (snd (replyCode cfg gw now now' iid i phoneNumber message w)) =
           (case latest_pending (lembretes_status w) iid of
              [] \<Rightarrow> lembretes_status w
            | (lid, l) # _ \<Rightarrow>
                doc_update (lembretes_status w) lid
                  (\<lambda>d. d\<lparr>status := (if message = ''1'' then ''tomou''
                                    else if message = ''2'' then ''nao_tomou''
                                    else ''adiado''),
                         ultimaResposta := Some now,
                         respostaRecebida := Some message\<rparr>)
                @ (if message = ''3''
                   then [(new_doc_id (lembretes_status w),
                          \<lparr>medicamentoId = medicamentoId l, idosoId = iid, dataHora = now',
                           status = ''agendado_adiado'', tentativas = 1,
                           horarioOriginal = horarioOriginal l, twilioSid = None,
                           twilioStatus = None, erro = None, ultimaResposta = None,
                           respostaRecebida = None, adiadoPor = Some 10\<rparr>)]
                   else []))"
proof -
  from replyCode_unfold [OF code, of i cfg gw now now' iid phoneNumber w] obtain body where
    run: "replyCode cfg gw now now' iid i phoneNumber message w =
             send_logged cfg gw 0 phoneNumber body
               (recordReply now now' iid message
                  (if message = ''1'' then ''tomou''
                   else if message = ''2'' then ''nao_tomou'' else ''adiado'') w)"
    by blast
  show ?thesis
    unfolding run send_logged_world
    by (simp add: log_event_def recordReply_ledger)
qed

lemma replyCode_events:
  assumes code: "message \<in> {''1'', ''2'', ''3''}"
  shows "\<exists>body. map_of (confirmationMessages i) message = Some body \<and>
           events (snd (replyCode cfg gw now now' iid i phoneNumber message w)) =
             events w
             @ (case latest_pending (lembretes_status w) iid of
                  [] \<Rightarrow> []
                | (lid, l) # _ \<Rightarrow>
                    LedgerUpdate lid #
                    (if message = ''3'' then [LedgerSet (new_doc_id (lembretes_status w))]
                     else []))
             @ [SendMessage phoneNumber body (sendWhatsAppMessage cfg gw 0 phoneNumber body)]"
proof -
  from replyCode_unfold [OF code, of i cfg gw now now' iid phoneNumber w] obtain body where
    body: "map_of (confirmationMessages i) message = Some body"
    and run: "replyCode cfg gw now now' iid i phoneNumber message w =
             send_logged cfg gw 0 phoneNumber body
               (recordReply now now' iid message
                  (if message = ''1'' then ''tomou''
                   else if message = ''2'' then ''nao_tomou'' else ''adiado'') w)"
    by blast
  have "events (snd (replyCode cfg gw now now' iid i phoneNumber message w)) =
             events w
             @ (case latest_pending (lembretes_status w) iid of
                  [] \<Rightarrow> []
                | (lid, l) # _ \<Rightarrow>
                    LedgerUpdate lid #
                    (if message = ''3'' then [LedgerSet (new_doc_id (lembretes_status w))]
                     else []))
             @ [SendMessage phoneNumber body (sendWhatsAppMessage cfg gw 0 phoneNumber body)]"
    unfolding run send_logged_world
    by (simp add: log_event_def recordReply_events)
  with body show ?thesis by blast
qed

lemma replyCode_other_collections:
  assumes code: "message \<in> {''1'', ''2'', ''3''}"
  shows "idosos (snd (replyCode cfg gw now now' iid i phoneNumber message w)) = idosos w \<and>
         medicamentos (snd (replyCode cfg gw now now' iid i phoneNumber message w)) =
           medicamentos w"
proof -
  from replyCode_unfold [OF code, of i cfg gw now now' iid phoneNumber w] obtain body where
    run: "replyCode cfg gw now now' iid i phoneNumber message w =
             send_logged cfg gw 0 phoneNumber body
               (recordReply now now' iid message
                  (if message = ''1'' then ''tomou''
                   else if message = ''2'' then ''nao_tomou'' else ''adiado'') w)"
    by blast
  show ?thesis
    unfolding run send_logged_world
    by (simp add: log_event_def recordReply_other_collections)
qed


text \<open>
  Claim C1. A known patient replies \<^verbatim>\<open>1\<close>, \<^verbatim>\<open>2\<close> or \<^verbatim>\<open>3\<close> (after trimming) while the
  query for the latest pending reminder gives the entry \<open>l\<close> under id \<open>lid\<close>. Then that
  entry, and no other existing one, gets status \<^verbatim>\<open>tomou\<close>, \<^verbatim>\<open>nao_tomou\<close> or \<^verbatim>\<open>adiado\<close>
  respectively, the time of the reply and the code as received. For \<^verbatim>\<open>3\<close> exactly one
  entry is added, under a new id: status \<^verbatim>\<open>agendado_adiado\<close>, the medication and the
  scheduled time of \<open>l\<close>, delay 10 and attempt count 1. For \<^verbatim>\<open>1\<close> and \<^verbatim>\<open>2\<close> no entry
  is added. Document ids are unique in the ledger.
\<close>

theorem reply_code_transitions_latest_pending:
  assumes known: "idososByWhatsapp w (phoneNumberOf From) = (iid, i) # others"
    and code: "messageOf Body \<in> {''1'', ''2'', ''3''}"
    and pending: "latest_pending (lembretes_status w) iid = [(lid, l)]"
    and ids: "distinct (map fst (lembretes_status w))"
  shows
    "let w' = snd (handleWhatsAppWebhook cfg gw now now' From Body w);
         newStatus = (if messageOf Body = ''1'' then ''tomou''
                      else if messageOf Body = ''2'' then ''nao_tomou'' else ''adiado'');
         rid = new_doc_id (lembretes_status w)
     in doc_get (lembretes_status w') lid =
          Some (l\<lparr>status := newStatus, ultimaResposta := Some now,
                  respostaRecebida := Some (messageOf Body)\<rparr>)
        \<and> (\<forall>k. k \<noteq> lid \<longrightarrow> k \<noteq> rid \<longrightarrow>
              doc_get (lembretes_status w') k = doc_get (lembretes_status w) k)
        \<and> (messageOf Body = ''3'' \<longrightarrow>
              rid \<notin> set (map fst (lembretes_status w)) \<and>
              map fst (lembretes_status w') = map fst (lembretes_status w) @ [rid] \<and>
              doc_get (lembretes_status w') rid =
                Some \<lparr>medicamentoId = medicamentoId l, idosoId = iid, dataHora = now',
                      status = ''agendado_adiado'', tentativas = 1,
                      horarioOriginal = horarioOriginal l, twilioSid = None,
                      twilioStatus = None, erro = None, ultimaResposta = None,
                      respostaRecebida = None, adiadoPor = Some 10\<rparr>)
        \<and> (messageOf Body \<noteq> ''3'' \<longrightarrow>
              map fst (lembretes_status w') = map fst (lembretes_status w))"
proof -
  define L where "L = lembretes_status w"
  define rid where "rid = new_doc_id L"
  define f where "f = (\<lambda>d::lembrete. d\<lparr>status := (if messageOf Body = ''1'' then ''tomou''
                      else if messageOf Body = ''2'' then ''nao_tomou'' else ''adiado''),
                  ultimaResposta := Some now, respostaRecebida := Some (messageOf Body)\<rparr>)"
  define p where "p = \<lparr>medicamentoId = medicamentoId l, idosoId = iid, dataHora = now',
                      status = ''agendado_adiado'', tentativas = 1,
                      horarioOriginal = horarioOriginal l, twilioSid = None,
                      twilioStatus = None, erro = None, ultimaResposta = None,
                      respostaRecebida = None, adiadoPor = Some 10\<rparr>"
  define L' where "L' = lembretes_status (snd (handleWhatsAppWebhook cfg gw now now' From Body w))"
  have ledger: "L' = doc_update L lid f @ (if messageOf Body = ''3'' then [(rid, p)] else [])"
    unfolding L'_def L_def rid_def f_def p_def
    by (simp add: webhook_code_branch [OF known code] replyCode_ledger [OF code] pending)
  have "(lid, l) \<in> set (latest_pending L iid)" using pending by (simp add: L_def)
  then have stored: "(lid, l) \<in> set L"
    using latest_pending_Cons [of L iid lid l "[]"] pending by (simp add: L_def)
  then have at_lid: "doc_get L lid = Some l"
    using ids by (simp add: doc_get_distinct L_def)
  have fresh: "rid \<notin> set (map fst L)"
    unfolding rid_def by (rule new_doc_id_fresh)
  then have fresh': "rid \<notin> set (map fst (doc_update L lid f))"
    by (simp add: map_fst_doc_update del: set_map)
  have "lid \<in> set (map fst L)" using stored by force
  with fresh have neq: "lid \<noteq> rid" by auto
  have c1: "doc_get L' lid = Some (f l)"
    using neq by (simp add: ledger doc_get_append_fresh [OF fresh'] doc_get_doc_update at_lid)
  have c2: "\<forall>k. k \<noteq> lid \<longrightarrow> k \<noteq> rid \<longrightarrow> doc_get L' k = doc_get L k"
    by (simp add: ledger doc_get_append_fresh [OF fresh'] doc_get_doc_update)
  have c3: "messageOf Body = ''3'' \<longrightarrow>
      rid \<notin> set (map fst L) \<and> map fst L' = map fst L @ [rid] \<and> doc_get L' rid = Some p"
    using fresh by (simp add: ledger doc_get_append_fresh [OF fresh'] map_fst_doc_update)
  have c4: "messageOf Body \<noteq> ''3'' \<longrightarrow> map fst L' = map fst L"
    by (simp add: ledger map_fst_doc_update)
  from c1 c2 c3 c4 show ?thesis
    unfolding Let_def L'_def L_def rid_def f_def p_def by blast
qed


lemma ex_known_ana:
  "idososByWhatsapp ex_world (phoneNumberOf (Some ''whatsapp:+5511999990000'')) =
     (1, ex_ana) # []"
  by (simp add: idososByWhatsapp_def phoneNumberOf_def orEmpty_def ex_world_def ex_idosos_def ex_ana_def ex_rui_def)

lemma ex_pending_ana:
  "latest_pending (lembretes_status ex_world) 1 =
     [(22, ex_lembrete 10 1 300 ''enviado'' ''09:00'')]"
  by (simp add: latest_pending_def orderBy_dataHora_desc_def ex_world_def ex_ledger_def
      ex_lembrete_def sort_key_def)

lemma ex_ledger_ids: "map fst (lembretes_status ex_world) = [20, 21, 22, 23]"
  by (simp add: ex_world_def ex_ledger_def)

lemma ex_new_doc_id: "new_doc_id (lembretes_status ex_world) = 24"
  by (simp add: new_doc_id_def ex_ledger_ids)

lemma ex_message_3: "messageOf (Some '' 3 '') = ''3''"
  by (simp add: messageOf_def orEmpty_def trim_def whiteSpace_def stripAll.simps)

text \<open>
  The first patient of the example store answers \<^verbatim>\<open>3\<close>, with blanks around it: the
  pending entry 22 becomes \<^verbatim>\<open>adiado\<close> and entry 24 is the postponed reminder.
\<close>

theorem reply_code_transitions_latest_pending_witness:
  "doc_get (lembretes_status (snd (handleWhatsAppWebhook ex_config ex_gateway 600 601
       (Some ''whatsapp:+5511999990000'') (Some '' 3 '') ex_world))) 22 =
     Some ((ex_lembrete 10 1 300 ''enviado'' ''09:00'')
             \<lparr>status := ''adiado'', ultimaResposta := Some 600,
              respostaRecebida := Some ''3''\<rparr>)
   \<and> map fst (lembretes_status (snd (handleWhatsAppWebhook ex_config ex_gateway 600 601
         (Some ''whatsapp:+5511999990000'') (Some '' 3 '') ex_world))) = [20, 21, 22, 23, 24]
   \<and> doc_get (lembretes_status (snd (handleWhatsAppWebhook ex_config ex_gateway 600 601
         (Some ''whatsapp:+5511999990000'') (Some '' 3 '') ex_world))) 24 =
       Some \<lparr>medicamentoId = 10, idosoId = 1, dataHora = 601,
             status = ''agendado_adiado'', tentativas = 1, horarioOriginal = ''09:00'',
             twilioSid = None, twilioStatus = None, erro = None, ultimaResposta = None,
             respostaRecebida = None, adiadoPor = Some 10\<rparr>"
proof -
  have code: "messageOf (Some '' 3 '') \<in> {''1'', ''2'', ''3''}"
    by (simp add: ex_message_3)
  have ids: "distinct (map fst (lembretes_status ex_world))"
    by (simp add: ex_ledger_ids)
  note fact = reply_code_transitions_latest_pending
    [where cfg = ex_config and gw = ex_gateway and now = 600 and now' = 601,
     OF ex_known_ana code ex_pending_ana ids, unfolded Let_def]
  have a: "doc_get (lembretes_status (snd (handleWhatsAppWebhook ex_config ex_gateway 600 601
       (Some ''whatsapp:+5511999990000'') (Some '' 3 '') ex_world))) 22 =
     Some ((ex_lembrete 10 1 300 ''enviado'' ''09:00'')
             \<lparr>status := ''adiado'', ultimaResposta := Some 600,
              respostaRecebida := Some ''3''\<rparr>)"
    using fact [THEN conjunct1] by (simp add: ex_message_3)
  have b: "map fst (lembretes_status (snd (handleWhatsAppWebhook ex_config ex_gateway 600 601
         (Some ''whatsapp:+5511999990000'') (Some '' 3 '') ex_world))) = [20, 21, 22, 23, 24]
   \<and> doc_get (lembretes_status (snd (handleWhatsAppWebhook ex_config ex_gateway 600 601
         (Some ''whatsapp:+5511999990000'') (Some '' 3 '') ex_world))) 24 =
       Some \<lparr>medicamentoId = 10, idosoId = 1, dataHora = 601,
             status = ''agendado_adiado'', tentativas = 1, horarioOriginal = ''09:00'',
             twilioSid = None, twilioStatus = None, erro = None, ultimaResposta = None,
             respostaRecebida = None, adiadoPor = Some 10\<rparr>"
    using fact [THEN conjunct2, THEN conjunct2, THEN conjunct1]
    by (simp add: ex_message_3 ex_new_doc_id ex_ledger_ids ex_lembrete_def)
  from a b show ?thesis by blast
qed

lemma no_pending_latest:
  assumes "\<forall>(k, d)\<in>set c. idosoId d = iid \<longrightarrow> status d \<noteq> ''enviado''"
  shows "latest_pending c iid = []"
  using assms by (auto simp: latest_pending_Nil_iff filter_empty_conv)

text \<open>
  Claim C10. When no ledger entry of the known patient has status \<^verbatim>\<open>enviado\<close>, a
  reply \<^verbatim>\<open>1\<close>, \<^verbatim>\<open>2\<close> or \<^verbatim>\<open>3\<close> leaves the ledger and the other collections as they
  were; the only effect is the one confirmation message of the code, which for \<^verbatim>\<open>3\<close>
  is the promise to remind again in ten minutes.
\<close>

theorem reply_code_without_pending_writes_nothing:
  assumes known: "idososByWhatsapp w (phoneNumberOf From) = (iid, i) # others"
    and code: "messageOf Body \<in> {''1'', ''2'', ''3''}"
    and nopending: "\<forall>(k, d)\<in>set (lembretes_status w). idosoId d = iid \<longrightarrow> status d \<noteq> ''enviado''"
  shows
    "let w' = snd (handleWhatsAppWebhook cfg gw now now' From Body w)
     in lembretes_status w' = lembretes_status w
        \<and> medicamentos w' = medicamentos w
        \<and> idosos w' = idosos w
        \<and> (\<exists>body. map_of (confirmationMessages i) (messageOf Body) = Some body \<and>
              events w' = events w @
                [SendMessage (phoneNumberOf From) body
                   (sendWhatsAppMessage cfg gw 0 (phoneNumberOf From) body)])
        \<and> (messageOf Body = ''3'' \<longrightarrow>
              map_of (confirmationMessages i) (messageOf Body) =
                Some (''Ok, vamos lembrar de novo em 10 minutos '' @
                      [CHR 0xE2, CHR 0x80, CHR 0x94] @ '' responda 1 quando tomar :)''))"
proof -
  have none: "latest_pending (lembretes_status w) iid = []"
    by (rule no_pending_latest [OF nopending])
  have branch: "snd (handleWhatsAppWebhook cfg gw now now' From Body w) =
      snd (replyCode cfg gw now now' iid i (phoneNumberOf From) (messageOf Body) w)"
    by (rule webhook_code_branch [OF known code])
  have ledger: "lembretes_status (snd (handleWhatsAppWebhook cfg gw now now' From Body w)) =
      lembretes_status w"
    by (simp add: branch replyCode_ledger [OF code] none)
  have others: "medicamentos (snd (handleWhatsAppWebhook cfg gw now now' From Body w)) =
      medicamentos w \<and> idosos (snd (handleWhatsAppWebhook cfg gw now now' From Body w)) = idosos w"
    using replyCode_other_collections [OF code] by (simp add: branch)
  have sent: "\<exists>body. map_of (confirmationMessages i) (messageOf Body) = Some body \<and>
      events (snd (handleWhatsAppWebhook cfg gw now now' From Body w)) = events w @
        [SendMessage (phoneNumberOf From) body
           (sendWhatsAppMessage cfg gw 0 (phoneNumberOf From) body)]"
    using replyCode_events [OF code, of i cfg gw now now' iid "phoneNumberOf From" w]
    by (simp add: branch none)
  have text3: "messageOf Body = ''3'' \<longrightarrow>
      map_of (confirmationMessages i) (messageOf Body) =
        Some (''Ok, vamos lembrar de novo em 10 minutos '' @
              [CHR 0xE2, CHR 0x80, CHR 0x94] @ '' responda 1 quando tomar :)'')"
    by (simp add: confirmationMessages_def)
  from ledger others sent text3 show ?thesis
    unfolding Let_def by blast
qed


lemma webhook_other_branch:
  assumes "idososByWhatsapp w (phoneNumberOf From) = (iid, i) # others"
    and "messageOf Body \<notin> {''1'', ''2'', ''3''}"
    and "toLowerCase (messageOf Body) \<noteq> ''sair''"
  shows "snd (handleWhatsAppWebhook cfg gw now now' From Body w) =
           log_event (SendMessage (phoneNumberOf From) helpMessage
              (sendWhatsAppMessage cfg gw 0 (phoneNumberOf From) helpMessage)) w"
  using assms(2,3) by (simp add: webhook_known [OF assms(1)] Let_def send_logged_world)





lemma ex_known_rui:
  "idososByWhatsapp (ex_world\<lparr>lembretes_status := c\<rparr>)
       (phoneNumberOf (Some ''whatsapp:+5511888880000'')) =
     (2, ex_rui) # []"
  by (simp add: idososByWhatsapp_def phoneNumberOf_def orEmpty_def ex_world_def ex_idosos_def ex_ana_def ex_rui_def)

text \<open>
  The second patient answers \<^verbatim>\<open>3\<close> when his only entry is already answered and the
  other patient has a pending one: the ledger is unchanged.
\<close>

theorem reply_code_without_pending_writes_nothing_witness:
  "lembretes_status (snd (handleWhatsAppWebhook ex_config ex_gateway 600 601
       (Some ''whatsapp:+5511888880000'') (Some '' 3 '')
       (ex_world\<lparr>lembretes_status := [(20, ex_lembrete 10 1 100 ''enviado'' ''09:00''),
                                       (21, ex_lembrete 12 2 100 ''tomou'' ''09:00'')]\<rparr>))) =
     [(20, ex_lembrete 10 1 100 ''enviado'' ''09:00''),
      (21, ex_lembrete 12 2 100 ''tomou'' ''09:00'')]
   \<and> map_of (confirmationMessages ex_rui) ''3'' =
       Some (''Ok, vamos lembrar de novo em 10 minutos '' @
             [CHR 0xE2, CHR 0x80, CHR 0x94] @ '' responda 1 quando tomar :)'')"
proof -
  define c :: "lembrete collection" where "c = [(20, ex_lembrete 10 1 100 ''enviado'' ''09:00''),
                        (21, ex_lembrete 12 2 100 ''tomou'' ''09:00'')]"
  have code: "messageOf (Some '' 3 '') \<in> {''1'', ''2'', ''3''}"
    by (simp add: ex_message_3)
  have nopending: "\<forall>(k, d)\<in>set (lembretes_status (ex_world\<lparr>lembretes_status := c\<rparr>)).
      idosoId d = 2 \<longrightarrow> status d \<noteq> ''enviado''"
    by (simp add: c_def ex_lembrete_def)
  note fact = reply_code_without_pending_writes_nothing
    [where cfg = ex_config and gw = ex_gateway and now = 600 and now' = 601,
     OF ex_known_rui code nopending, unfolded Let_def]
  have a: "lembretes_status (snd (handleWhatsAppWebhook ex_config ex_gateway 600 601
       (Some ''whatsapp:+5511888880000'') (Some '' 3 '')
       (ex_world\<lparr>lembretes_status := c\<rparr>))) = c"
    using fact [THEN conjunct1] by simp
  have b: "map_of (confirmationMessages ex_rui) ''3'' =
       Some (''Ok, vamos lembrar de novo em 10 minutos '' @
             [CHR 0xE2, CHR 0x80, CHR 0x94] @ '' responda 1 quando tomar :)'')"
    using fact [THEN conjunct2, THEN conjunct2, THEN conjunct2, THEN conjunct2]
    by (simp add: ex_message_3)
  from a b show ?thesis unfolding c_def by blast
qed





lemma ex_message_nbsp_1:
  "messageOf (Some ([CHR 0xC2, CHR 0xA0] @ ''1'' @ [CHR 0xC2, CHR 0xA0])) = ''1''"
  by (simp add: messageOf_def orEmpty_def trim_def whiteSpace_def stripAll.simps)


text \<open>
  A body with a no-break space before the code and one after it is the code: the reply
  is recorded on the pending entry.
\<close>

lemma reply_code_between_no_break_spaces:
  "doc_get (lembretes_status (snd (handleWhatsAppWebhook ex_config ex_gateway 600 601
       (Some ''whatsapp:+5511999990000'')
       (Some ([CHR 0xC2, CHR 0xA0] @ ''1'' @ [CHR 0xC2, CHR 0xA0])) ex_world))) 22 =
     Some ((ex_lembrete 10 1 300 ''enviado'' ''09:00'')
             \<lparr>status := ''tomou'', ultimaResposta := Some 600,
              respostaRecebida := Some ''1''\<rparr>)"
proof -
  have code: "messageOf (Some ([CHR 0xC2, CHR 0xA0] @ ''1'' @ [CHR 0xC2, CHR 0xA0])) \<in>
      {''1'', ''2'', ''3''}"
    by (simp only: ex_message_nbsp_1) simp
  have code': "''1'' \<in> {''1'', ''2'', ''3''}"
    by simp
  have "lembretes_status (snd (handleWhatsAppWebhook ex_config ex_gateway 600 601
       (Some ''whatsapp:+5511999990000'')
       (Some ([CHR 0xC2, CHR 0xA0] @ ''1'' @ [CHR 0xC2, CHR 0xA0])) ex_world)) =
     lembretes_status (snd (replyCode ex_config ex_gateway 600 601 1 ex_ana
       (phoneNumberOf (Some ''whatsapp:+5511999990000'')) ''1'' ex_world))"
    using webhook_code_branch [OF ex_known_ana code] unfolding ex_message_nbsp_1 by simp
  also have "\<dots> = doc_update (lembretes_status ex_world) 22
       (\<lambda>d. d\<lparr>status := ''tomou'', ultimaResposta := Some 600,
              respostaRecebida := Some ''1''\<rparr>)"
    unfolding replyCode_ledger [OF code'] ex_pending_ana by simp
  finally have ledger: "lembretes_status (snd (handleWhatsAppWebhook ex_config ex_gateway 600 601
       (Some ''whatsapp:+5511999990000'')
       (Some ([CHR 0xC2, CHR 0xA0] @ ''1'' @ [CHR 0xC2, CHR 0xA0])) ex_world)) =
     doc_update (lembretes_status ex_world) 22
       (\<lambda>d. d\<lparr>status := ''tomou'', ultimaResposta := Some 600,
              respostaRecebida := Some ''1''\<rparr>)" .
  show ?thesis
    unfolding ledger by (simp add: doc_update_def doc_get_def ex_world_def ex_ledger_def)
qed

section \<open>The stop keyword\<close>



lemma stop_is_no_code: "toLowerCase m = ''sair'' \<Longrightarrow> m \<notin> {''1'', ''2'', ''3''}"
  by (auto simp: toLowerCase_def lowerChar_def)





lemma replySair_rest:
  "lembretes_status (snd (replySair cfg gw now iid i phoneNumber w)) = lembretes_status w \<and>
   idosos (snd (replySair cfg gw now iid i phoneNumber w)) = idosos w \<and>
   events (snd (replySair cfg gw now iid i phoneNumber w)) =
     events w @
     [MedicationBatchCommit
        (map fst (filter (\<lambda>(k, m). med_idosoId m = iid \<and> ativo m) (medicamentos w))),
      SendMessage phoneNumber (optOutMessage i)
        (sendWhatsAppMessage cfg gw 0 phoneNumber (optOutMessage i))]"
  by (simp add: replySair_def send_logged_world log_event_def Let_def)

lemma webhook_stop_branch:
  assumes "idososByWhatsapp w (phoneNumberOf From) = (iid, i) # others"
    and "toLowerCase (messageOf Body) = ''sair''"
  shows "snd (handleWhatsAppWebhook cfg gw now now' From Body w) =
           snd (replySair cfg gw now iid i (phoneNumberOf From) w)"
  using assms(2) stop_is_no_code [OF assms(2)]
  by (simp add: webhook_known [OF assms(1)] Let_def)



section \<open>Properties of the dispatcher tick\<close>

lemma fold_doc_set_fresh:
  "distinct (map fst nb) \<Longrightarrow> set (map fst nb) \<inter> set (map fst c) = {} \<Longrightarrow>
   fold (\<lambda>(k, d) c. doc_set c k d) nb c = c @ nb"
proof (induction nb arbitrary: c)
  case Nil
  show ?case by simp
next
  case (Cons x nb)
  obtain k d where x: "x = (k, d)" by (cases x)
  from Cons.prems have k: "k \<notin> set (map fst c)" and kn: "k \<notin> set (map fst nb)"
    and dist: "distinct (map fst nb)" and disj: "set (map fst nb) \<inter> set (map fst c) = {}"
    by (auto simp: x)
  have disj': "set (map fst nb) \<inter> set (map fst (c @ [(k, d)])) = {}"
    using disj kn by auto
  have "fold (\<lambda>(k, d) c. doc_set c k d) (x # nb) c =
        fold (\<lambda>(k, d) c. doc_set c k d) nb (c @ [(k, d)])"
    by (simp add: x doc_set_fresh [OF k])
  also have "\<dots> = (c @ [(k, d)]) @ nb"
    by (rule Cons.IH [OF dist disj'])
  finally show ?case by (simp add: x)
qed

lemma collectReminders_spec:
  "\<exists>nb nr.
     collectReminders w day time now docs (batch, rs) = (batch @ nb, rs @ nr)
     \<and> map snd nb = map (\<lambda>(mid, m). sentEntry mid m now time)
          (filter (\<lambda>(mid, m). is_due m day time \<and> doc_get (idosos w) (med_idosoId m) \<noteq> None) docs)
     \<and> map lembreteId nr = map fst nb
     \<and> map rem_medicamento nr = map snd
          (filter (\<lambda>(mid, m). is_due m day time \<and> doc_get (idosos w) (med_idosoId m) \<noteq> None) docs)
     \<and> map (\<lambda>r. Some (rem_idoso r)) nr = map (\<lambda>(mid, m). doc_get (idosos w) (med_idosoId m))
          (filter (\<lambda>(mid, m). is_due m day time \<and> doc_get (idosos w) (med_idosoId m) \<noteq> None) docs)
     \<and> distinct (map fst nb)
     \<and> set (map fst nb) \<inter> set (map fst (lembretes_status w @ batch)) = {}"
proof (induction docs arbitrary: batch rs)
  case Nil
  show ?case by simp
next
  case (Cons x docs)
  obtain mid m where x: "x = (mid, m)" by (cases x)
  let ?P = "\<lambda>(mid, m). is_due m day time \<and> doc_get (idosos w) (med_idosoId m) \<noteq> None"
  show ?case
  proof (cases "?P (mid, m)")
    case False
    then have skip: "collectReminders w day time now (x # docs) (batch, rs) =
        collectReminders w day time now docs (batch, rs)"
      by (auto simp: x is_due_def split: option.splits)
    from False have "filter ?P (x # docs) = filter ?P docs" by (simp add: x)
    with Cons.IH [of batch rs] skip show ?thesis by simp
  next
    case True
    then obtain i where i: "doc_get (idosos w) (med_idosoId m) = Some i" by auto
    define r where "r = new_doc_id (lembretes_status w @ batch)"
    define e where "e = sentEntry mid m now time"
    define rm where "rm = \<lparr>rem_idoso = i, rem_medicamento = m, lembreteId = r\<rparr>"
    from True i have step: "collectReminders w day time now (x # docs) (batch, rs) =
        collectReminders w day time now docs (batch @ [(r, e)], rs @ [rm])"
      by (simp add: x is_due_def r_def e_def rm_def sentEntry_def Let_def split: if_splits)
    from Cons.IH [of "batch @ [(r, e)]" "rs @ [rm]"] obtain nb nr where
      res: "collectReminders w day time now docs (batch @ [(r, e)], rs @ [rm]) =
              ((batch @ [(r, e)]) @ nb, (rs @ [rm]) @ nr)"
      and ents: "map snd nb = map (\<lambda>(mid, m). sentEntry mid m now time) (filter ?P docs)"
      and idsr: "map lembreteId nr = map fst nb"
      and meds: "map rem_medicamento nr = map snd (filter ?P docs)"
      and pats: "map (\<lambda>r. Some (rem_idoso r)) nr =
                   map (\<lambda>(mid, m). doc_get (idosos w) (med_idosoId m)) (filter ?P docs)"
      and dist: "distinct (map fst nb)"
      and disj: "set (map fst nb) \<inter> set (map fst (lembretes_status w @ batch @ [(r, e)])) = {}"
      by auto
    have fresh: "r \<notin> set (map fst (lembretes_status w @ batch))"
      unfolding r_def by (rule new_doc_id_fresh)
    have flt: "filter ?P (x # docs) = (mid, m) # filter ?P docs"
      using True by (simp add: x)
    have "collectReminders w day time now (x # docs) (batch, rs) =
            (batch @ ((r, e) # nb), rs @ (rm # nr))"
      by (simp add: step res)
    moreover have "map snd ((r, e) # nb) = map (\<lambda>(mid, m). sentEntry mid m now time) (filter ?P (x # docs))"
      unfolding flt by (simp add: ents e_def)
    moreover have "map lembreteId (rm # nr) = map fst ((r, e) # nb)"
      by (simp add: idsr rm_def)
    moreover have "map rem_medicamento (rm # nr) = map snd (filter ?P (x # docs))"
      unfolding flt by (simp add: meds rm_def)
    moreover have "map (\<lambda>r. Some (rem_idoso r)) (rm # nr) =
                   map (\<lambda>(mid, m). doc_get (idosos w) (med_idosoId m)) (filter ?P (x # docs))"
      unfolding flt by (simp add: pats rm_def i)
    moreover have "distinct (map fst ((r, e) # nb))"
      using dist disj by auto
    moreover have "set (map fst ((r, e) # nb)) \<inter> set (map fst (lembretes_status w @ batch)) = {}"
      using fresh disj by auto
    ultimately show ?thesis by blast
  qed
qed


lemma commitReminders_spec:
  "\<exists>batch.
     fst (commitReminders day time now w) =
       w\<lparr>lembretes_status := lembretes_status w @ batch,
         events := events w @ (if batch = [] then [] else [BatchCommit (map fst batch)])\<rparr>
     \<and> map snd batch = map (\<lambda>(mid, m). sentEntry mid m now time) (due_medications w day time)
     \<and> map lembreteId (snd (commitReminders day time now w)) = map fst batch
     \<and> map rem_medicamento (snd (commitReminders day time now w)) =
         map snd (due_medications w day time)
     \<and> map (\<lambda>r. Some (rem_idoso r)) (snd (commitReminders day time now w)) =
         map (\<lambda>(mid, m). doc_get (idosos w) (med_idosoId m)) (due_medications w day time)
     \<and> distinct (map fst batch)
     \<and> set (map fst batch) \<inter> set (map fst (lembretes_status w)) = {}"
proof -
  define act where "act = filter (\<lambda>(k, m). ativo m = True) (medicamentos w)"
  from collectReminders_spec [of w day time now act "[]" "[]"] obtain nb nr where
    res: "collectReminders w day time now act ([], []) = (nb, nr)"
    and ents: "map snd nb = map (\<lambda>(mid, m). sentEntry mid m now time) (due_medications w day time)"
    and idsr: "map lembreteId nr = map fst nb"
    and meds: "map rem_medicamento nr = map snd (due_medications w day time)"
    and pats: "map (\<lambda>r. Some (rem_idoso r)) nr =
                 map (\<lambda>(mid, m). doc_get (idosos w) (med_idosoId m)) (due_medications w day time)"
    and dist: "distinct (map fst nb)"
    and disj: "set (map fst nb) \<inter> set (map fst (lembretes_status w)) = {}"
    unfolding due_medications_def act_def by auto
  have len: "length nr = length nb"
    using idsr by (metis length_map)
  have nil: "act = [] \<Longrightarrow> nb = [] \<and> nr = []"
    using res by simp
  have both: "nr = [] \<longleftrightarrow> nb = []"
    using len by (metis length_0_conv)
  have commit: "batch_commit nb w =
      w\<lparr>lembretes_status := lembretes_status w @ nb,
        events := events w @ [BatchCommit (map fst nb)]\<rparr>"
    by (simp add: batch_commit_def log_event_def fold_doc_set_fresh [OF dist disj])
  have run: "commitReminders day time now w =
      (if nb = [] then w
       else w\<lparr>lembretes_status := lembretes_status w @ nb,
              events := events w @ [BatchCommit (map fst nb)]\<rparr>, nr)"
  proof (cases "act = []")
    case True
    with nil show ?thesis
      unfolding commitReminders_def act_def [symmetric] by simp
  next
    case False
    then show ?thesis
      using both unfolding commitReminders_def act_def [symmetric]
      by (simp add: res commit)
  qed
  have "fst (commitReminders day time now w) =
       w\<lparr>lembretes_status := lembretes_status w @ nb,
         events := events w @ (if nb = [] then [] else [BatchCommit (map fst nb)])\<rparr>"
    by (simp add: run)
  moreover have "snd (commitReminders day time now w) = nr"
    by (simp add: run)
  ultimately show ?thesis
    using ents idsr meds pats dist disj by auto
qed



lemma deliverReminders_result:
  assumes "sendWhatsAppMessage cfg gw n (whatsapp (rem_idoso r)) (reminderMessage r) = Inr result"
  shows "deliverReminders cfg gw n (r # rs) w =
     deliverReminders cfg gw (Suc n) rs
       (w\<lparr>lembretes_status := doc_update (lembretes_status w) (lembreteId r)
              (recordOutcome result),
          events := events w @ [SendMessage (whatsapp (rem_idoso r)) (reminderMessage r)
                                  (Inr result),
                                LedgerUpdate (lembreteId r)]\<rparr>)"
proof (cases result)
  case (SendOk sid st)
  have "recordOutcome (SendOk sid st) = (\<lambda>d. d\<lparr>twilioSid := Some sid, twilioStatus := Some st\<rparr>)"
    by (rule ext) (simp add: recordOutcome_def)
  with SendOk assms show ?thesis by (simp add: log_event_def Let_def)
next
  case (SendFailed e)
  have "recordOutcome (SendFailed e) = (\<lambda>d. d\<lparr>status := ''erro'', erro := Some e\<rparr>)"
    by (rule ext) (simp add: recordOutcome_def)
  with SendFailed assms show ?thesis by (simp add: log_event_def Let_def)
qed

lemma deliverReminders_exception:
  assumes "sendWhatsAppMessage cfg gw n (whatsapp (rem_idoso r)) (reminderMessage r) = Inl e"
  shows "deliverReminders cfg gw n (r # rs) w =
     (Some e, w\<lparr>events := events w @
        [SendMessage (whatsapp (rem_idoso r)) (reminderMessage r) (Inl e)]\<rparr>)"
  using assms by (simp add: log_event_def Let_def)


lemma deliverReminders_frame:
  "idosos (snd (deliverReminders cfg gw n rs w)) = idosos w \<and>
   medicamentos (snd (deliverReminders cfg gw n rs w)) = medicamentos w \<and>
   map fst (lembretes_status (snd (deliverReminders cfg gw n rs w))) =
     map fst (lembretes_status w)"
proof (induction rs arbitrary: n w)
  case Nil
  show ?case by simp
next
  case (Cons r rs)
  show ?case
  proof (cases "sendWhatsAppMessage cfg gw n (whatsapp (rem_idoso r)) (reminderMessage r)")
    case (Inl e)
    show ?thesis
      unfolding deliverReminders_exception [OF Inl] by simp
  next
    case (Inr result)
    define w' where "w' = w\<lparr>lembretes_status := doc_update (lembretes_status w) (lembreteId r)
              (recordOutcome result),
          events := events w @ [SendMessage (whatsapp (rem_idoso r)) (reminderMessage r)
                                  (Inr result),
                                LedgerUpdate (lembreteId r)]\<rparr>"
    have step: "deliverReminders cfg gw n (r # rs) w = deliverReminders cfg gw (Suc n) rs w'"
      unfolding deliverReminders_result [OF Inr] w'_def ..
    have "idosos w' = idosos w" "medicamentos w' = medicamentos w"
      "map fst (lembretes_status w') = map fst (lembretes_status w)"
      by (simp_all add: w'_def map_fst_doc_update)
    with Cons.IH [of "Suc n" w'] show ?thesis
      unfolding step by simp
  qed
qed






lemma dispatchReminders_unfold:
  "dispatchReminders cfg gw day time now w =
     deliverReminders cfg gw 0 (snd (commitReminders day time now w))
       (fst (commitReminders day time now w))"
  by (simp add: dispatchReminders_def case_prod_beta)


lemma ex_due: "due_medications ex_world 1 ''09:00'' = [(10, ex_losartana), (12, ex_metformina)]"
  by (simp add: due_medications_def is_due_def array_includes_def isTimeToRemind_def
      substring_def doc_get_def ex_world_def ex_medicamentos_def ex_idosos_def
      ex_losartana_def ex_aas_def ex_metformina_def ex_sinvastatina_def)

lemma ex_commit:
  "commitReminders 1 ''09:00'' 1000 ex_world =
     (ex_world\<lparr>lembretes_status := ex_ledger @
                   [(24, sentEntry 10 ex_losartana 1000 ''09:00''),
                    (25, sentEntry 12 ex_metformina 1000 ''09:00'')],
                events := [BatchCommit [24, 25]]\<rparr>,
      [\<lparr>rem_idoso = ex_ana, rem_medicamento = ex_losartana, lembreteId = 24\<rparr>,
       \<lparr>rem_idoso = ex_rui, rem_medicamento = ex_metformina, lembreteId = 25\<rparr>])"
  by (simp add: commitReminders_def is_due_def array_includes_def isTimeToRemind_def
      substring_def doc_get_def ex_world_def ex_medicamentos_def ex_idosos_def
      ex_losartana_def ex_aas_def ex_metformina_def ex_sinvastatina_def
      new_doc_id_def ex_ledger_def batch_commit_def log_event_def doc_set_def sentEntry_def)





text \<open>
  The option value \<^verbatim>\<open>numeric\<close> is none the formatter admits for the weekday: whatever the
  moment, the store and the gateway, the tick ends at line 148 with the exception, in the
  state it started in.
\<close>

lemma getCurrentDayOfWeek_throws:
  "getCurrentDayOfWeek rt =
     Inl (RangeError
       ''Value numeric out of range for Intl.DateTimeFormat options property weekday'')"
  by (simp add: getCurrentDayOfWeek_def weekdayOption_def array_includes_def)

lemma checkMedicationReminders_throws:
  "checkMedicationReminders cfg gw rt now w =
     (Some (RangeError
        ''Value numeric out of range for Intl.DateTimeFormat options property weekday''), w)"
  by (simp add: checkMedicationReminders_def getCurrentDayOfWeek_throws)

text \<open>
  Claim C9. At the moment the example formatter stands for, a Monday at \<^verbatim>\<open>09:00\<close>, the
  adapter gives the time of day, and its day of the week is not a number from 0 to 6 but
  an exception.
\<close>

theorem clock_day_of_week_throws:
  "getCurrentBrazilTime ex_runtime = ''09:00''
   \<and> getCurrentDayOfWeek ex_runtime =
       Inl (RangeError
         ''Value numeric out of range for Intl.DateTimeFormat options property weekday'')"
  by (simp add: getCurrentBrazilTime_def ex_runtime_def getCurrentDayOfWeek_throws)

text \<open>
  With the day and the time given, lines 150 to 195 make one new ledger entry for each
  active medication that is due and whose patient record exists, in the order of the
  store: status \<^verbatim>\<open>enviado\<close>, attempt count 1, scheduled time equal to the current time,
  no gateway message id. The entries get distinct ids that no ledger entry has, and the
  state after line 195 is the old state with these entries appended to the ledger by one
  batch commit (no commit when the batch is empty). The sends come after it.
\<close>

lemma dispatch_commits_sent_entries_before_delivery:
  "\<exists>batch.
     map snd batch =
       map (\<lambda>(mid, m). sentEntry mid m now currentTime)
         (due_medications w currentDay currentTime)
     \<and> (\<forall>(k, d)\<in>set batch. status d = ''enviado'' \<and> tentativas d = 1 \<and>
           horarioOriginal d = currentTime \<and> twilioSid d = None)
     \<and> distinct (map fst batch)
     \<and> set (map fst batch) \<inter> set (map fst (lembretes_status w)) = {}
     \<and> fst (commitReminders currentDay currentTime now w) =
         w\<lparr>lembretes_status := lembretes_status w @ batch,
           events := events w @ (if batch = [] then [] else [BatchCommit (map fst batch)])\<rparr>
     \<and> map lembreteId (snd (commitReminders currentDay currentTime now w)) = map fst batch
     \<and> dispatchReminders cfg gw currentDay currentTime now w =
         deliverReminders cfg gw 0 (snd (commitReminders currentDay currentTime now w))
           (w\<lparr>lembretes_status := lembretes_status w @ batch,
              events := events w @ (if batch = [] then [] else [BatchCommit (map fst batch)])\<rparr>)"
proof -
  from commitReminders_spec [of currentDay currentTime now w] obtain batch where
    ents: "map snd batch = map (\<lambda>(mid, m). sentEntry mid m now currentTime)
             (due_medications w currentDay currentTime)"
    and dist: "distinct (map fst batch)"
    and disj: "set (map fst batch) \<inter> set (map fst (lembretes_status w)) = {}"
    and committed: "fst (commitReminders currentDay currentTime now w) =
         w\<lparr>lembretes_status := lembretes_status w @ batch,
           events := events w @ (if batch = [] then [] else [BatchCommit (map fst batch)])\<rparr>"
    and refs: "map lembreteId (snd (commitReminders currentDay currentTime now w)) = map fst batch"
    by blast
  have fresh: "\<forall>(k, d)\<in>set batch. status d = ''enviado'' \<and> tentativas d = 1 \<and>
           horarioOriginal d = currentTime \<and> twilioSid d = None"
  proof (intro ballI)
    fix x assume "x \<in> set batch"
    then have "snd x \<in> set (map snd batch)" by simp
    then obtain y where "snd x = (case y of (mid, m) \<Rightarrow> sentEntry mid m now currentTime)"
      unfolding ents by auto
    then have "status (snd x) = ''enviado'' \<and> tentativas (snd x) = 1 \<and>
           horarioOriginal (snd x) = currentTime \<and> twilioSid (snd x) = None"
      by (cases y) (simp add: sentEntry_def)
    then show "case x of (k, d) \<Rightarrow> status d = ''enviado'' \<and> tentativas d = 1 \<and>
           horarioOriginal d = currentTime \<and> twilioSid d = None"
      by (cases x) simp
  qed
  have run: "dispatchReminders cfg gw currentDay currentTime now w =
         deliverReminders cfg gw 0 (snd (commitReminders currentDay currentTime now w))
           (w\<lparr>lembretes_status := lembretes_status w @ batch,
              events := events w @ (if batch = [] then [] else [BatchCommit (map fst batch)])\<rparr>)"
    unfolding dispatchReminders_unfold committed ..
  from ents fresh dist disj committed refs run show ?thesis by blast
qed

text \<open>
  Claim C3. On the example store two medications are due on a Monday at \<^verbatim>\<open>09:00\<close>, and
  with that day and time lines 150 to 195 commit the entries 24 and 25 for them. The tick
  at that moment does not get there: it ends at line 148 with the exception, and the
  ledger is the one it started with, without an entry for either medication.
\<close>

theorem tick_creates_no_entry:
  "due_medications ex_world 1 ''09:00'' = [(10, ex_losartana), (12, ex_metformina)]
   \<and> lembretes_status (fst (commitReminders 1 (getCurrentBrazilTime ex_runtime) 1000 ex_world)) =
       ex_ledger @ [(24, sentEntry 10 ex_losartana 1000 ''09:00''),
                    (25, sentEntry 12 ex_metformina 1000 ''09:00'')]
   \<and> checkMedicationReminders ex_config ex_gateway ex_runtime 1000 ex_world =
       (Some (RangeError
          ''Value numeric out of range for Intl.DateTimeFormat options property weekday''),
        ex_world)
   \<and> lembretes_status
         (snd (checkMedicationReminders ex_config ex_gateway ex_runtime 1000 ex_world)) =
       ex_ledger"
proof -
  have time: "getCurrentBrazilTime ex_runtime = ''09:00''"
    by (simp add: getCurrentBrazilTime_def ex_runtime_def)
  have a: "lembretes_status (fst (commitReminders 1 (getCurrentBrazilTime ex_runtime) 1000
        ex_world)) =
       ex_ledger @ [(24, sentEntry 10 ex_losartana 1000 ''09:00''),
                    (25, sentEntry 12 ex_metformina 1000 ''09:00'')]"
    unfolding time ex_commit by simp
  have b: "lembretes_status
         (snd (checkMedicationReminders ex_config ex_gateway ex_runtime 1000 ex_world)) =
       ex_ledger"
    unfolding checkMedicationReminders_throws by (simp add: ex_world_def)
  from ex_due a checkMedicationReminders_throws [of ex_config ex_gateway ex_runtime 1000 ex_world] b
  show ?thesis by blast
qed




section \<open>Unique ids\<close>

text \<open>
  Several statements above take the ids of the ledger to be unique, as the store
  guarantees. The dispatcher and the webhook keep them so: every id they add is new.
\<close>

lemma dispatch_keeps_ids_unique:
  assumes "distinct (map fst (lembretes_status w))"
  shows "distinct (map fst (lembretes_status
           (snd (dispatchReminders cfg gw currentDay currentTime now w))))"
proof -
  from commitReminders_spec [of currentDay currentTime now w] obtain batch where
    dist: "distinct (map fst batch)"
    and disj: "set (map fst batch) \<inter> set (map fst (lembretes_status w)) = {}"
    and committed: "fst (commitReminders currentDay currentTime now w) =
         w\<lparr>lembretes_status := lembretes_status w @ batch,
           events := events w @ (if batch = [] then [] else [BatchCommit (map fst batch)])\<rparr>"
    by blast
  have "map fst (lembretes_status (snd (dispatchReminders cfg gw currentDay currentTime now w))) =
        map fst (lembretes_status w) @ map fst batch"
    unfolding dispatchReminders_unfold
    using deliverReminders_frame [of cfg gw 0 "snd (commitReminders currentDay currentTime now w)"
        "fst (commitReminders currentDay currentTime now w)"]
    by (simp add: committed)
  with assms dist disj show ?thesis by auto
qed

lemma tick_keeps_ids_unique:
  assumes "distinct (map fst (lembretes_status w))"
  shows "distinct (map fst (lembretes_status (snd (checkMedicationReminders cfg gw rt now w))))"
  using assms by (simp add: checkMedicationReminders_throws)

lemma webhook_keeps_ids_unique:
  assumes "distinct (map fst (lembretes_status w))"
  shows "distinct (map fst (lembretes_status
           (snd (handleWhatsAppWebhook cfg gw now now' From Body w))))"
proof (cases "idososByWhatsapp w (phoneNumberOf From)")
  case Nil
  with assms show ?thesis by (simp add: handleWhatsAppWebhook_def)
next
  case (Cons x others)
  obtain iid i where x: "x = (iid, i)" by (cases x)
  note known = Cons [unfolded x]
  consider (code) "messageOf Body \<in> {''1'', ''2'', ''3''}"
    | (stop) "toLowerCase (messageOf Body) = ''sair''"
    | (other) "messageOf Body \<notin> {''1'', ''2'', ''3''}" "toLowerCase (messageOf Body) \<noteq> ''sair''"
    by blast
  then show ?thesis
  proof cases
    case code
    have fresh: "new_doc_id (lembretes_status w) \<notin> set (map fst (lembretes_status w))"
      by (rule new_doc_id_fresh)
    show ?thesis
      using assms fresh
      by (simp add: webhook_code_branch [OF known code] replyCode_ledger [OF code]
          map_fst_doc_update split: list.splits)
  next
    case stop
    then show ?thesis
      using assms replySair_rest [of cfg gw now iid i "phoneNumberOf From" w]
      by (simp add: webhook_stop_branch [OF known stop])
  next
    case other
    then show ?thesis
      using assms
      by (simp add: webhook_other_branch [OF known other] log_event_def)
  qed
qed

end
